theory Spec2Isabelle
  imports Complex_Main "HOL-Library.List_Lexorder" "HOL-Library.Product_Lexorder"
begin

section \<open>Strings and the Unicode character database\<close>

text \<open>
  A Python \<open>str\<close> is a sequence of Unicode code points; a code point is a natural
  number. Floating-point numbers are modelled by the reals they denote; the reductions
  whose rounding can change an order relation, the mean and the standard deviation of a
  zone, are parameters of the model (\<open>numerics\<close>). A value that may be not-a-number is a
  \<open>real option\<close>, with \<open>None\<close> for every non-numeric outcome (\<open>None\<close>, \<open>nan\<close>, a
  masked constant).
\<close>

type_synonym str = "nat list"

text \<open>
  \<open>normalize_str\<close> calls \<open>unicodedata.normalize("NFD", s)\<close>,
  \<open>unicodedata.category(c)\<close> and \<open>str.upper()\<close>. All three read tables of the
  Unicode character database, which is not part of the repository: the tables are a
  parameter of the model.
  \<^item> \<open>decomposition\<close>: the full canonical decomposition of a code point (the code
    point itself when it has none);
  \<^item> \<open>combining\<close>: the canonical combining class (0 for a starter);
  \<^item> \<open>category\<close>: the general category, as the two-letter string Python returns;
  \<^item> \<open>upper\<close>: the full upper-case mapping (one code point may map to several).
\<close>

record ucd =
  decomposition :: "nat \<Rightarrow> nat list"
  combining :: "nat \<Rightarrow> nat"
  category :: "nat \<Rightarrow> string"
  upper :: "nat \<Rightarrow> nat list"

text \<open>
  Canonical ordering, the second step of NFD: every maximal run of code points with a
  non-zero combining class is sorted by combining class, stably. \<open>run\<close> collects the
  current run; a starter closes it.
\<close>

fun canonical_order :: "(nat \<Rightarrow> nat) \<Rightarrow> nat list \<Rightarrow> nat list \<Rightarrow> nat list" where
  "canonical_order cc run [] = sort_key cc run"
| "canonical_order cc run (c # cs) =
     (if cc c = 0 then sort_key cc run @ c # canonical_order cc [] cs
      else canonical_order cc (run @ [c]) cs)"

definition NFD :: "ucd \<Rightarrow> str \<Rightarrow> str" where
  "NFD U s = canonical_order (combining U) [] (concat (map (decomposition U) s))"

definition str_upper :: "ucd \<Rightarrow> str \<Rightarrow> str" where
  "str_upper U s = concat (map (upper U) s)"

section \<open>Name normalizer\<close>

text \<open>
  \<^verbatim>\<open>
  def normalize_str(s):
      return "".join(
          c for c in unicodedata.normalize("NFD", s)
          if unicodedata.category(c) != "Mn"
      ).upper()
  \<close>
  On a \<open>str\<close> none of the three calls raises, so the model has no error branch.
\<close>

definition normalize_str :: "ucd \<Rightarrow> str \<Rightarrow> str" where
  "normalize_str U s = str_upper U (filter (\<lambda>c. category U c \<noteq> ''Mn'') (NFD U s))"

text \<open>
  The entries of the character database that the concrete inputs below read: the
  accented letters of Spanish with their decompositions, the combining marks U+0301,
  U+0303 and U+0308 (category Mn, class 230), the combining grapheme joiner U+034F
  (category Mn, class 0), the musical symbols U+1D165 (combining stem, category Mc,
  class 216) and U+1D16D (combining augmentation dot, category Mc, class 226), and the
  ASCII letters and the space. Every other code point is left without decomposition,
  with class 0 and unassigned; no theorem below reads the table there.
\<close>

definition ucd_fragment :: ucd where
  "ucd_fragment = \<lparr>
     decomposition = (\<lambda>c.
        if c = 0xC1 then [0x41, 0x301] else if c = 0xC9 then [0x45, 0x301]
        else if c = 0xCD then [0x49, 0x301] else if c = 0xD1 then [0x4E, 0x303]
        else if c = 0xD3 then [0x4F, 0x301] else if c = 0xDA then [0x55, 0x301]
        else if c = 0xDC then [0x55, 0x308] else if c = 0xE1 then [0x61, 0x301]
        else if c = 0xE9 then [0x65, 0x301] else if c = 0xED then [0x69, 0x301]
        else if c = 0xF1 then [0x6E, 0x303] else if c = 0xF3 then [0x6F, 0x301]
        else if c = 0xFA then [0x75, 0x301] else if c = 0xFC then [0x75, 0x308]
        else [c]),
     combining = (\<lambda>c.
        if c = 0x301 \<or> c = 0x303 \<or> c = 0x308 then 230
        else if c = 0x1D165 then 216 else if c = 0x1D16D then 226 else 0),
     category = (\<lambda>c.
        if c = 0x301 \<or> c = 0x303 \<or> c = 0x308 \<or> c = 0x34F then ''Mn''
        else if c = 0x1D165 \<or> c = 0x1D16D then ''Mc''
        else if 0x41 \<le> c \<and> c \<le> 0x5A then ''Lu''
        else if 0x61 \<le> c \<and> c \<le> 0x7A then ''Ll''
        else if c = 0x20 then ''Zs'' else ''Cn''),
     upper = (\<lambda>c. if 0x61 \<le> c \<and> c \<le> 0x7A then [c - 32] else [c]) \<rparr>"

text \<open>The district name "Junin" with an acute accent on the i, and a string of three
  combining characters: augmentation dot, grapheme joiner, stem.\<close>

definition junin :: str where
  "junin = [0x4A, 0x75, 0x6E, 0xED, 0x6E]"

definition dot_joiner_stem :: str where
  "dot_joiner_stem = [0x1D16D, 0x34F, 0x1D165]"

section \<open>Shared data and numeric helpers\<close>

text \<open>
  The identifying attributes of a district, as the shapefile and the exported table
  carry them. \<open>ascii\<close> writes a name given in ASCII as a \<open>str\<close>.
\<close>

definition ascii :: "string \<Rightarrow> str" where
  "ascii s = map of_char s"

record district =
  DEPARTAMEN :: str
  PROVINCIA :: str
  DISTRITO :: str
  UBIGEO :: nat

text \<open>The exceptions the modelled calls can raise.\<close>

datatype error = IndexError | ValueError

subsection \<open>Quantiles\<close>

text \<open>
  \<open>Series.quantile(q)\<close> and \<open>numpy.nanpercentile\<close> share one method, linear
  interpolation: with the \<open>n\<close> values sorted, the result lies at the virtual index
  \<open>h = q * (n - 1)\<close>, between the order statistics at \<open>floor h\<close> and the next index.
  Both skip not-a-number entries and give not-a-number when nothing is left; pandas
  raises \<open>ValueError\<close> for a fraction outside \<open>[0, 1]\<close>.
\<close>

definition dropna :: "real option list \<Rightarrow> real list" where
  "dropna col = [v. Some v \<leftarrow> col]"

definition lerp_at :: "real list \<Rightarrow> real \<Rightarrow> real" where
  "lerp_at s h =
     (let lo = nat \<lfloor>h\<rfloor>; hi = min (lo + 1) (length s - 1)
      in s ! lo + (h - real lo) * (s ! hi - s ! lo))"

definition linear_quantile :: "real list \<Rightarrow> real \<Rightarrow> real" where
  "linear_quantile vs q = lerp_at (sort vs) (q * real (length vs - 1))"

definition quantile :: "real option list \<Rightarrow> real \<Rightarrow> error + real option" where
  "quantile col q =
     (if q < 0 \<or> 1 < q then Inl ValueError
      else Inr (let vs = dropna col in if vs = [] then None else Some (linear_quantile vs q)))"


section \<open>Zonal statistics\<close>

subsection \<open>Raster, geometry and the masked window\<close>

text \<open>
  An open raster dataset: its bands (\<open>src.count\<close> is their number, \<open>src.read(b)\<close> the
  band with the 1-based index \<open>b\<close>) and the value that marks a cell without measurement.
  A band is a grid of samples, row by row; a sample is a float and may be not-a-number.
  The model covers datasets that declare their nodata value, a number of the type of the
  samples (\<open>src.nodata\<close> is not \<open>None\<close>); what \<open>zonal_stats\<close> puts in its place
  when none is declared is not modelled.
\<close>

type_synonym band = "real option list list"

record src =
  bands :: "band list"
  nodata :: real

text \<open>
  The geometry of a feature enters \<open>zonal_stats\<close> through two computations of
  \<open>rasterstats\<close>, both made with the affine transform of the raster: the window of
  the polygon's bounding box in pixel coordinates (half-open row and column ranges,
  which may reach beyond the raster), and the rasterised polygon, which says for each
  cell whether the polygon covers it. A \<open>footprint\<close> is the result of the two; the
  transform and the coordinates of the polygon are not modelled further.
\<close>

record footprint =
  row_start :: int
  row_stop :: int
  col_start :: int
  col_stop :: int
  inside :: "int \<Rightarrow> int \<Rightarrow> bool"

record feature = district +
  geometry :: footprint

text \<open>
  \<open>zonal_stats\<close> reads the window boundlessly: a cell of the window outside the raster
  holds the nodata value. It then masks every cell that holds the nodata value or
  not-a-number or is not covered by the polygon. A masked array is a grid of pairs: the
  stored value, and whether the cell is masked.
\<close>

type_synonym masked = "(real option \<times> bool) list list"

definition read_boundless :: "band \<Rightarrow> real \<Rightarrow> int \<Rightarrow> int \<Rightarrow> real option" where
  "read_boundless a nd r c =
     (if 0 \<le> r \<and> r < int (length a) \<and> 0 \<le> c \<and> c < int (length (a ! nat r))
      then a ! nat r ! nat c else Some nd)"

definition masked_window :: "band \<Rightarrow> real \<Rightarrow> footprint \<Rightarrow> masked" where
  "masked_window a nd g =
     map (\<lambda>r. map (\<lambda>c. let v = read_boundless a nd r c
                        in (v, v = Some nd \<or> v = None \<or> \<not> inside g r c))
                 [col_start g..col_stop g - 1])
         [row_start g..row_stop g - 1]"

text \<open>
  What numpy does with a masked array \<open>x\<close>:
  \<^item> \<open>x.compressed()\<close>: the values of the cells that are not masked;
  \<^item> \<open>len(x)\<close>: the number of rows of the grid, masked or not;
  \<^item> \<open>np.array(x, copy=True)\<close>: a plain array of the stored values, the mask dropped;
  \<^item> \<open>np.nanpercentile(a, p)\<close>: the linear-interpolation percentile of the numbers in
    \<open>a\<close>, not-a-number when there is none;
  \<^item> \<open>np.nanmax(x)\<close>, \<open>np.nanmin(x)\<close>: the extremes of the cells that are not masked,
    no number when every cell is masked.
\<close>

definition compressed :: "masked \<Rightarrow> real list" where
  "compressed x = dropna (map fst (filter (\<lambda>cell. \<not> snd cell) (concat x)))"

definition np_array :: "masked \<Rightarrow> real option list list" where
  "np_array x = map (map fst) x"

definition nanpercentile :: "real option list list \<Rightarrow> real \<Rightarrow> real option" where
  "nanpercentile a p =
     (let vs = dropna (concat a) in if vs = [] then None else Some (linear_quantile vs (p / 100)))"

definition nanmax :: "masked \<Rightarrow> real option" where
  "nanmax x = (let vs = compressed x in if vs = [] then None else Some (Max (set vs)))"

definition nanmin :: "masked \<Rightarrow> real option" where
  "nanmin x = (let vs = compressed x in if vs = [] then None else Some (Min (set vs)))"

subsection \<open>The function compute_stats\<close>

text \<open>
  \<^verbatim>\<open>
  def compute_stats(gdf, src, band=1):
      affine = src.transform
      array = src.read(band)
      stats = zonal_stats(
          vectors=gdf, raster=array, affine=affine,
          stats=["count", "mean", "min", "max", "std"],
          add_stats={
              "p10": lambda x: np.nanpercentile(np.array(x, copy=True), 10) if len(x) > 0 else np.nan,
              "p90": lambda x: np.nanpercentile(np.array(x, copy=True), 90) if len(x) > 0 else np.nan,
              "range": lambda x: (np.nanmax(x) - np.nanmin(x)) if len(x) > 0 else np.nan,
          },
          nodata=src.nodata)
      df = pd.DataFrame(stats)
      df["BAND"] = band
      df["YEAR"] = 2019 + band
      return df
  \<close>
  The three functions of \<open>add_stats\<close> are the repository's own. \<open>zonal_stats\<close> calls
  each of them with the masked window of the feature, whether or not a cell of it is
  valid.
\<close>

definition add_p10 :: "masked \<Rightarrow> real option" where
  "add_p10 x = (if length x > 0 then nanpercentile (np_array x) 10 else None)"

definition add_p90 :: "masked \<Rightarrow> real option" where
  "add_p90 x = (if length x > 0 then nanpercentile (np_array x) 90 else None)"

definition add_range :: "masked \<Rightarrow> real option" where
  "add_range x =
     (if length x > 0
      then (case (nanmax x, nanmin x) of (Some hi, Some lo) \<Rightarrow> Some (hi - lo) | _ \<Rightarrow> None)
      else None)"

text \<open>
  One record of \<open>zonal_stats\<close>, and the row \<open>compute_stats\<close> makes of it. The columns
  \<open>min\<close>, \<open>max\<close> and \<open>range\<close> are the fields \<open>min_stat\<close>, \<open>max_stat\<close> and
  \<open>range_stat\<close>.
\<close>

record zonal =
  count :: nat
  mean :: "real option"
  min_stat :: "real option"
  max_stat :: "real option"
  std :: "real option"
  p10 :: "real option"
  p90 :: "real option"
  range_stat :: "real option"

record zonal_row = zonal +
  BAND :: int
  YEAR :: int

text \<open>
  The mean and the standard deviation of the valid cells are floating-point reductions
  over all of them (\<open>masked.mean()\<close>, \<open>masked.std()\<close>). Their rounded results do not
  keep the order relations of the exact ones: the mean of three cells of value 0.1 is
  0.10000000000000002, above the largest cell. The two reductions are therefore a
  parameter of the model, and nothing is assumed of them. The minimum and the maximum
  are cells of the window; the percentiles and the range are a single interpolation or
  difference between two cells and are written with the exact operations.
\<close>

record numerics =
  np_mean :: "real list \<Rightarrow> real"
  np_std :: "real list \<Rightarrow> real"

text \<open>
  The reductions without rounding. They are the floating-point results wherever every
  sum and quotient is a representable number, as for the concrete rasters below: cells
  that are all 5 or all 6, and eleven cells of value 0 with one of value 120.
\<close>

definition exact_numerics :: numerics where
  "exact_numerics =
     \<lparr>np_mean = (\<lambda>vs. sum_list vs / real (length vs)),
      np_std = (\<lambda>vs. sqrt (sum_list (map (\<lambda>v. (v - sum_list vs / real (length vs))\<^sup>2) vs)
                            / real (length vs)))\<rparr>"

text \<open>
  The built-in statistics: when no cell of the window is valid, \<open>count\<close> is 0 and the
  others are \<open>None\<close>; otherwise they are the count, mean, minimum, maximum and
  population standard deviation of the valid cells.
\<close>

definition feature_stats :: "numerics \<Rightarrow> masked \<Rightarrow> zonal" where
  "feature_stats num x =
     (let vs = compressed x in
      \<lparr>count = length vs,
       mean = (if vs = [] then None else Some (np_mean num vs)),
       min_stat = (if vs = [] then None else Some (Min (set vs))),
       max_stat = (if vs = [] then None else Some (Max (set vs))),
       std = (if vs = [] then None else Some (np_std num vs)),
       p10 = add_p10 x, p90 = add_p90 x, range_stat = add_range x\<rparr>)"

text \<open>
  \<open>zonal_stats\<close> reads the features first and raises \<open>ValueError\<close> ("Object is not a
  recognized source of Features") when the collection has none; otherwise it returns one
  record per feature.
\<close>

definition zonal_stats :: "numerics \<Rightarrow> feature list \<Rightarrow> band \<Rightarrow> real \<Rightarrow> error + zonal list" where
  "zonal_stats num vectors raster nd =
     (if vectors = [] then Inl ValueError
      else Inr (map (\<lambda>f. feature_stats num (masked_window raster nd (geometry f))) vectors))"

text \<open>\<open>src.read(band)\<close> raises \<open>IndexError\<close> for an index that is not a band of the
  dataset.\<close>

definition read_band :: "src \<Rightarrow> int \<Rightarrow> error + band" where
  "read_band s b =
     (if 1 \<le> b \<and> b \<le> int (length (bands s)) then Inr (bands s ! nat (b - 1)) else Inl IndexError)"

definition with_band :: "int \<Rightarrow> zonal \<Rightarrow> zonal_row" where
  "with_band b z = zonal.extend z (zonal_row.fields b (2019 + b))"

definition compute_stats :: "numerics \<Rightarrow> feature list \<Rightarrow> src \<Rightarrow> int \<Rightarrow> error + zonal_row list" where
  "compute_stats num gdf s band =
     (case read_band s band of
        Inl e \<Rightarrow> Inl e
      | Inr array \<Rightarrow>
          (case zonal_stats num gdf array (nodata s) of
             Inl e \<Rightarrow> Inl e
           | Inr stats \<Rightarrow> Inr (map (with_band band) stats)))"

subsection \<open>The statistics table\<close>

text \<open>
  \<^verbatim>\<open>
  all_stats = []
  for b in range(1, src.count + 1):
      df_band = compute_stats(gdf, src, band=b)
      all_stats.append(df_band)
  stats_df = pd.concat(all_stats, axis=0).reset_index(drop=True)
  gdf_repeated = pd.concat([gdf.reset_index(drop=True)] * src.count, ignore_index=True)
  result = pd.concat([gdf_repeated, stats_df.add_prefix("TMIN_")], axis=1)
  \<close>
  An exception in the loop ends it (\<open>sequence\<close>). \<open>pd.concat\<close> of no frames raises
  \<open>ValueError\<close>. The last \<open>pd.concat\<close> puts the two frames side by side by row
  position; a row of \<open>result\<close> is the pair of a feature and its statistics, and
  \<open>add_prefix\<close> only renames the columns of the second.
\<close>

fun sequence :: "(error + 'a) list \<Rightarrow> error + 'a list" where
  "sequence [] = Inr []"
| "sequence (Inl e # rs) = Inl e"
| "sequence (Inr x # rs) = (case sequence rs of Inl e \<Rightarrow> Inl e | Inr xs \<Rightarrow> Inr (x # xs))"

definition all_stats :: "numerics \<Rightarrow> feature list \<Rightarrow> src \<Rightarrow> error + zonal_row list list" where
  "all_stats num gdf s =
     sequence (map (\<lambda>b. compute_stats num gdf s (int b)) [1..<length (bands s) + 1])"

definition pd_concat :: "'a list list \<Rightarrow> error + 'a list" where
  "pd_concat dfs = (if dfs = [] then Inl ValueError else Inr (concat dfs))"

definition stats_df :: "numerics \<Rightarrow> feature list \<Rightarrow> src \<Rightarrow> error + zonal_row list" where
  "stats_df num gdf s = (case all_stats num gdf s of Inl e \<Rightarrow> Inl e | Inr dfs \<Rightarrow> pd_concat dfs)"

definition gdf_repeated :: "feature list \<Rightarrow> src \<Rightarrow> error + feature list" where
  "gdf_repeated gdf s = pd_concat (replicate (length (bands s)) gdf)"

definition result :: "numerics \<Rightarrow> feature list \<Rightarrow> src \<Rightarrow> error + (feature \<times> zonal_row) list" where
  "result num gdf s =
     (case stats_df num gdf s of
        Inl e \<Rightarrow> Inl e
      | Inr st \<Rightarrow> (case gdf_repeated gdf s of Inl e \<Rightarrow> Inl e | Inr rep \<Rightarrow> Inr (zip rep st)))"

text \<open>The record of one feature in one band, and the table of one band.\<close>

definition feature_record :: "numerics \<Rightarrow> src \<Rightarrow> nat \<Rightarrow> feature \<Rightarrow> zonal_row" where
  "feature_record num s b f =
     with_band (int b)
       (feature_stats num (masked_window (bands s ! (b - 1)) (nodata s) (geometry f)))"

definition band_table :: "numerics \<Rightarrow> feature list \<Rightarrow> src \<Rightarrow> nat \<Rightarrow> zonal_row list" where
  "band_table num gdf s b = map (feature_record num s b) gdf"

text \<open>The statistics of a row without its standard deviation, in the order of the
  claimed chain: count, min, p10, mean, p90, max, range.\<close>

definition summary ::
  "zonal_row \<Rightarrow> nat \<times> real option \<times> real option \<times> real option \<times> real option \<times> real option \<times> real option" where
  "summary r = (count r, min_stat r, p10 r, mean r, p90 r, max_stat r, range_stat r)"

subsection \<open>Concrete rasters and features\<close>

text \<open>
  A raster of one band, a block of two by two cells of value 5, with nodata -9999.
  District A covers the block; the bounding box of district B is the single cell in
  row 5 and column 5, outside the raster.
\<close>

definition block5 :: src where
  "block5 = \<lparr>bands = [[[Some 5, Some 5], [Some 5, Some 5]]], nodata = - 9999\<rparr>"

definition district_A :: feature where
  "district_A = \<lparr>DEPARTAMEN = ascii ''A'', PROVINCIA = ascii ''A'', DISTRITO = ascii ''A'', UBIGEO = 1,
     geometry = \<lparr>row_start = 0, row_stop = 2, col_start = 0, col_stop = 2, inside = (\<lambda>r c. True)\<rparr>\<rparr>"

definition district_B :: feature where
  "district_B = \<lparr>DEPARTAMEN = ascii ''B'', PROVINCIA = ascii ''B'', DISTRITO = ascii ''B'', UBIGEO = 2,
     geometry = \<lparr>row_start = 5, row_stop = 6, col_start = 5, col_stop = 6, inside = (\<lambda>r c. True)\<rparr>\<rparr>"

text \<open>The same block with a second band of value 6.\<close>

definition two_bands :: src where
  "two_bands = \<lparr>bands = [[[Some 5, Some 5], [Some 5, Some 5]], [[Some 6, Some 6], [Some 6, Some 6]]],
     nodata = - 9999\<rparr>"

text \<open>A band of one row: eleven cells of value 0 and one of value 120, all valid and all
  covered by the district \<open>strip\<close>.\<close>

definition skewed :: src where
  "skewed = \<lparr>bands = [[[Some 0, Some 0, Some 0, Some 0, Some 0, Some 0, Some 0, Some 0, Some 0,
                          Some 0, Some 0, Some 120]]], nodata = - 9999\<rparr>"

definition strip :: feature where
  "strip = \<lparr>DEPARTAMEN = ascii ''S'', PROVINCIA = ascii ''S'', DISTRITO = ascii ''S'', UBIGEO = 3,
     geometry = \<lparr>row_start = 0, row_stop = 1, col_start = 0, col_stop = 12, inside = (\<lambda>r c. True)\<rparr>\<rparr>"

section \<open>Percentile targeting\<close>

text \<open>
  The part of the script under the heading "Distritos con Tmin en el percentil 10"
  reads \<open>Data/tmin_stats.csv\<close> and works on five of its columns. A row of that
  table, restricted to the columns the script selects, is a \<open>stats_row\<close>. The
  identifying columns are taken to be present in every row; \<open>TMIN_mean\<close> is a float
  column and may hold not-a-number.
\<close>

record stats_row = district +
  TMIN_mean :: "real option"

subsection \<open>Selection and grouping\<close>

text \<open>A comparison with not-a-number on either side is false.\<close>

fun le_nan :: "real option \<Rightarrow> real option \<Rightarrow> bool" where
  "le_nan (Some a) (Some b) = (a \<le> b)"
| "le_nan _ _ = False"

text \<open>
  \<open>groupby(["UBIGEO", "DEPARTAMEN", "PROVINCIA", "DISTRITO"], as_index=False)["TMIN_mean"].min()\<close>:
  one row per distinct key, the rows in ascending key order (tuples and strings compare
  lexicographically), the mean column reduced to the minimum of the group's values that
  are numbers.
\<close>

definition group_key :: "'a district_scheme \<Rightarrow> nat \<times> str \<times> str \<times> str" where
  "group_key r = (UBIGEO r, DEPARTAMEN r, PROVINCIA r, DISTRITO r)"

definition min_skipna :: "real option list \<Rightarrow> real option" where
  "min_skipna col = (let vs = dropna col in if vs = [] then None else Some (Min (set vs)))"

definition group_min_row :: "stats_row list \<Rightarrow> nat \<times> str \<times> str \<times> str \<Rightarrow> stats_row" where
  "group_min_row rows k =
     (case k of (u, d, p, di) \<Rightarrow>
        \<lparr>DEPARTAMEN = d, PROVINCIA = p, DISTRITO = di, UBIGEO = u,
         TMIN_mean = min_skipna (map TMIN_mean (filter (\<lambda>r. group_key r = k) rows))\<rparr>)"

definition groupby_min :: "stats_row list \<Rightarrow> stats_row list" where
  "groupby_min rows = map (group_min_row rows) (sort (remdups (map group_key rows)))"

text \<open>\<open>Series.unique()\<close>: the distinct values in order of first appearance.\<close>

definition unique :: "'a list \<Rightarrow> 'a list" where
  "unique xs = rev (remdups (rev xs))"

subsection \<open>The cohort pipeline\<close>

text \<open>
  The script runs the same three steps twice, on the whole table (lines 150 to 160) and on
  the Amazonian rows (lines 188 to 198), each time with the literal \<open>0.10\<close>:
  \<^verbatim>\<open>
  global_p10 = t_min_stats["TMIN_mean"].quantile(0.10)
  target = t_min_stats[t_min_stats["TMIN_mean"] <= global_p10]
  target_selection = target[ ["DEPARTAMEN", "PROVINCIA", "DISTRITO", "UBIGEO", "TMIN_mean"] ]
  target_unique = target_selection.groupby(
      ["UBIGEO", "DEPARTAMEN", "PROVINCIA", "DISTRITO"], as_index=False)["TMIN_mean"].min()
  \<close>
  \<open>cohort\<close> is these steps with the fraction passed to \<open>quantile\<close> as an argument;
  the script's two cohorts are its instances at one tenth.
\<close>

definition cohort :: "real \<Rightarrow> stats_row list \<Rightarrow> error + stats_row list" where
  "cohort q t =
     (case quantile (map TMIN_mean t) q of
        Inl e \<Rightarrow> Inl e
      | Inr thr \<Rightarrow> Inr (groupby_min (filter (\<lambda>r. le_nan (TMIN_mean r) thr) t)))"

definition global_p10 :: "stats_row list \<Rightarrow> error + real option" where
  "global_p10 t_min_stats = quantile (map TMIN_mean t_min_stats) (1 / 10)"

definition target_unique :: "stats_row list \<Rightarrow> error + stats_row list" where
  "target_unique t_min_stats = cohort (1 / 10) t_min_stats"

text \<open>\<^verbatim>\<open>departamentos = target_unique["DEPARTAMEN"].unique()\<close>\<close>

definition departamentos :: "stats_row list \<Rightarrow> error + str list" where
  "departamentos t_min_stats =
     (case target_unique t_min_stats of
        Inl e \<Rightarrow> Inl e
      | Inr c \<Rightarrow> Inr (unique (map DEPARTAMEN c)))"

text \<open>
  \<^verbatim>\<open>
  amazon_depts = ["LORETO", "UCAYALI", "MADRE DE DIOS"]
  t_min_stats_amazonicos = t_min_stats[t_min_stats["DEPARTAMEN"].str.upper().isin(amazon_depts)]
  global_p10_amazonicos = t_min_stats_amazonicos["TMIN_mean"].quantile(0.10)
  amazon_target = t_min_stats_amazonicos[
      t_min_stats_amazonicos["TMIN_mean"] <= global_p10_amazonicos]
  ...
  target_unique_amazonicos = amazon_target_selection.groupby(...)["TMIN_mean"].min()
  departamentos_amaz = target_unique_amazonicos["DEPARTAMEN"].unique()
  departamentos_amazonicos_df = pd.DataFrame(departamentos, columns=["Departamento"])
  st.table(departamentos_amazonicos_df)
  \<close>
  The table shown under "Departamentos amazonicos presentes en el percentil 10" is built
  from \<open>departamentos\<close>, the variable of the cohort over the whole table; the variable
  \<open>departamentos_amaz\<close> is assigned and not read again.
\<close>

definition amazon_depts :: "str list" where
  "amazon_depts = [ascii ''LORETO'', ascii ''UCAYALI'', ascii ''MADRE DE DIOS'']"

definition t_min_stats_amazonicos :: "ucd \<Rightarrow> stats_row list \<Rightarrow> stats_row list" where
  "t_min_stats_amazonicos U t_min_stats =
     filter (\<lambda>r. str_upper U (DEPARTAMEN r) \<in> set amazon_depts) t_min_stats"

definition global_p10_amazonicos :: "ucd \<Rightarrow> stats_row list \<Rightarrow> error + real option" where
  "global_p10_amazonicos U t_min_stats =
     quantile (map TMIN_mean (t_min_stats_amazonicos U t_min_stats)) (1 / 10)"

definition target_unique_amazonicos :: "ucd \<Rightarrow> stats_row list \<Rightarrow> error + stats_row list" where
  "target_unique_amazonicos U t_min_stats = cohort (1 / 10) (t_min_stats_amazonicos U t_min_stats)"

definition departamentos_amaz :: "ucd \<Rightarrow> stats_row list \<Rightarrow> error + str list" where
  "departamentos_amaz U t_min_stats =
     (case target_unique_amazonicos U t_min_stats of
        Inl e \<Rightarrow> Inl e
      | Inr c \<Rightarrow> Inr (unique (map DEPARTAMEN c)))"

definition departamentos_amazonicos_df :: "ucd \<Rightarrow> stats_row list \<Rightarrow> error + str list" where
  "departamentos_amazonicos_df U t_min_stats = departamentos t_min_stats"

text \<open>The means on record for one district: the numbers in the mean column of the
  rows with a given key.\<close>

definition district_means :: "stats_row list \<Rightarrow> nat \<times> str \<times> str \<times> str \<Rightarrow> real set" where
  "district_means t k = {v. \<exists>r\<in>set t. group_key r = k \<and> TMIN_mean r = Some v}"

subsection \<open>Concrete tables\<close>

definition mk_row :: "string \<Rightarrow> string \<Rightarrow> string \<Rightarrow> nat \<Rightarrow> real option \<Rightarrow> stats_row" where
  "mk_row d p di u m =
     \<lparr>DEPARTAMEN = ascii d, PROVINCIA = ascii p, DISTRITO = ascii di, UBIGEO = u, TMIN_mean = m\<rparr>"

text \<open>Two bands of one district of Puno and one band each of two districts of Loreto,
  the first with its department in mixed case.\<close>

definition puno_loreto :: "stats_row list" where
  "puno_loreto =
     [mk_row ''PUNO'' ''PUNO'' ''ACORA'' 210102 (Some (-3)),
      mk_row ''Loreto'' ''MAYNAS'' ''IQUITOS'' 160101 (Some 20),
      mk_row ''LORETO'' ''MAYNAS'' ''PUNCHANA'' 160108 (Some 25),
      mk_row ''PUNO'' ''PUNO'' ''ACORA'' 210102 (Some 4)]"

text \<open>A table without any Amazonian row.\<close>

definition puno_only :: "stats_row list" where
  "puno_only = [mk_row ''PUNO'' ''PUNO'' ''ACORA'' 210102 (Some (-3))]"

text \<open>One hundred districts with the means 1 to 100.\<close>

definition row100 :: "nat \<Rightarrow> stats_row" where
  "row100 i = \<lparr>DEPARTAMEN = ascii ''PUNO'', PROVINCIA = ascii ''PUNO'', DISTRITO = ascii ''D'',
     UBIGEO = i, TMIN_mean = Some (real i)\<rparr>"

definition table100 :: "stats_row list" where
  "table100 = map row100 [1..<101]"

section \<open>Properties of the name normalizer\<close>

lemma canonical_order_starters:
  "\<forall>c\<in>set xs. cc c = 0 \<Longrightarrow> canonical_order cc run xs = sort_key cc run @ xs"
  by (induction xs arbitrary: run) simp_all

lemma concat_map_single: "\<forall>c\<in>set xs. f c = [c] \<Longrightarrow> concat (map f xs) = xs"
  by (induction xs) simp_all

text \<open>
  Claim C5 as stated (for every text \<open>s\<close>, normalising twice equals normalising once)
  fails. In \<open>dot_joiner_stem\<close> the joiner is a starter and keeps the dot (class 226)
  and the stem (class 216) in two separate runs, so NFD leaves the order alone. The
  joiner has category Mn and is dropped; the dot and the stem, of category Mc, stay.
  The second pass finds them adjacent and out of order, and swaps them.
\<close>

theorem normalize_str_not_idempotent:
  "normalize_str ucd_fragment dot_joiner_stem = [0x1D16D, 0x1D165] \<and>
   normalize_str ucd_fragment (normalize_str ucd_fragment dot_joiner_stem) = [0x1D165, 0x1D16D]"
  by (simp add: normalize_str_def NFD_def str_upper_def ucd_fragment_def dot_joiner_stem_def)

text \<open>
  Claim C5, amended. \<open>normalize_str\<close> is total on text (the model is a total function
  with no error branch), and normalising twice equals normalising once for every \<open>s\<close>
  whose normal form is made of stable characters: starters without a canonical
  decomposition that are not nonspacing marks and are their own upper case. The
  upper-case ASCII letters, digits and spaces that district names normalise to are
  such characters.
\<close>

theorem normalize_str_idempotent_on_stable:
  assumes "\<forall>c\<in>set (normalize_str U s).
     decomposition U c = [c] \<and> combining U c = 0 \<and> category U c \<noteq> ''Mn'' \<and> upper U c = [c]"
  shows "normalize_str U (normalize_str U s) = normalize_str U s"
proof -
  define t where "t = normalize_str U s"
  have st: "\<forall>c\<in>set t.
     decomposition U c = [c] \<and> combining U c = 0 \<and> category U c \<noteq> ''Mn'' \<and> upper U c = [c]"
    using assms by (simp add: t_def)
  have "NFD U t = t"
    using st by (simp add: NFD_def concat_map_single canonical_order_starters)
  moreover have "filter (\<lambda>c. category U c \<noteq> ''Mn'') t = t"
    using st by (simp add: filter_id_conv)
  moreover have "str_upper U t = t"
    using st by (simp add: str_upper_def concat_map_single)
  ultimately have "normalize_str U t = t"
    by (simp add: normalize_str_def)
  then show ?thesis by (simp add: t_def)
qed

theorem normalize_str_idempotent_on_stable_witness:
  "normalize_str ucd_fragment junin = [0x4A, 0x55, 0x4E, 0x49, 0x4E] \<and>
   normalize_str ucd_fragment (normalize_str ucd_fragment junin) = normalize_str ucd_fragment junin"
proof -
  have n: "normalize_str ucd_fragment junin = [0x4A, 0x55, 0x4E, 0x49, 0x4E]"
    by (simp add: normalize_str_def NFD_def str_upper_def ucd_fragment_def junin_def)
  have "\<forall>c\<in>set (normalize_str ucd_fragment junin).
     decomposition ucd_fragment c = [c] \<and> combining ucd_fragment c = 0 \<and>
     category ucd_fragment c \<noteq> ''Mn'' \<and> upper ucd_fragment c = [c]"
    unfolding n by (simp add: ucd_fragment_def)
  from normalize_str_idempotent_on_stable [OF this] n show ?thesis by simp
qed

section \<open>Properties of the quantile\<close>

lemma sort_nonempty: "vs \<noteq> [] \<Longrightarrow> sort vs \<noteq> ([] :: real list)"
  using length_sort [of "\<lambda>x. x" vs] by (metis length_0_conv)

lemma floor_index:
  assumes "0 \<le> h" "h \<le> real (n - 1)"
  shows "nat \<lfloor>h\<rfloor> \<le> n - 1" "real (nat \<lfloor>h\<rfloor>) \<le> h" "h < real (nat \<lfloor>h\<rfloor>) + 1"
proof -
  have "\<lfloor>h\<rfloor> \<le> int (n - 1)" using assms(2) by (simp add: floor_le_iff)
  then show "nat \<lfloor>h\<rfloor> \<le> n - 1" by linarith
  have "0 \<le> \<lfloor>h\<rfloor>" using assms(1) by simp
  then have "real (nat \<lfloor>h\<rfloor>) = of_int \<lfloor>h\<rfloor>" by simp
  then show "real (nat \<lfloor>h\<rfloor>) \<le> h" "h < real (nat \<lfloor>h\<rfloor>) + 1" by linarith+
qed

lemma lerp_at_bounds:
  assumes "sorted s" "s \<noteq> []" "0 \<le> h" "h \<le> real (length s - 1)"
  shows "s ! nat \<lfloor>h\<rfloor> \<le> lerp_at s h"
    and "lerp_at s h \<le> s ! min (nat \<lfloor>h\<rfloor> + 1) (length s - 1)"
proof -
  define lo where "lo = nat \<lfloor>h\<rfloor>"
  define hi where "hi = min (lo + 1) (length s - 1)"
  have lo: "lo \<le> length s - 1" "real lo \<le> h" "h < real lo + 1"
    using floor_index [OF assms(3,4)] by (simp_all add: lo_def)
  have "0 < length s" using assms(2) by simp
  then have "lo \<le> hi" "hi < length s" using lo(1) unfolding hi_def by arith+
  then have d: "s ! lo \<le> s ! hi" using assms(1) by (simp add: sorted_nth_mono)
  have eq: "lerp_at s h = s ! lo + (h - real lo) * (s ! hi - s ! lo)"
    by (simp add: lerp_at_def lo_def hi_def Let_def)
  have "0 \<le> (h - real lo) * (s ! hi - s ! lo)" using lo(2) d by simp
  then have a: "s ! lo \<le> lerp_at s h" unfolding eq by linarith
  have "(h - real lo) * (s ! hi - s ! lo) \<le> s ! hi - s ! lo"
    using lo(2,3) d by (intro mult_left_le_one_le) simp_all
  then have b: "lerp_at s h \<le> s ! hi" unfolding eq by linarith
  show "s ! nat \<lfloor>h\<rfloor> \<le> lerp_at s h" using a by (simp only: lo_def)
  show "lerp_at s h \<le> s ! min (nat \<lfloor>h\<rfloor> + 1) (length s - 1)"
    using b by (simp only: hi_def lo_def)
qed

lemma lerp_at_mono:
  assumes "sorted s" "s \<noteq> []" "0 \<le> h1" "h1 \<le> h2" "h2 \<le> real (length s - 1)"
  shows "lerp_at s h1 \<le> lerp_at s h2"
proof -
  define l1 where "l1 = nat \<lfloor>h1\<rfloor>"
  define l2 where "l2 = nat \<lfloor>h2\<rfloor>"
  have h1: "h1 \<le> real (length s - 1)" and h2: "0 \<le> h2" using assms by linarith+
  have l2: "l2 \<le> length s - 1" using floor_index(1) [OF h2 assms(5)] by (simp add: l2_def)
  have l12: "l1 \<le> l2" unfolding l1_def l2_def using assms(4) by (intro nat_mono floor_mono)
  show ?thesis
  proof (cases "l1 = l2")
    case True
    define hi where "hi = min (l1 + 1) (length s - 1)"
    have "0 < length s" using assms(2) by simp
    then have "l1 \<le> hi" "hi < length s" using l2 True unfolding hi_def by arith+
    then have d: "0 \<le> s ! hi - s ! l1" using assms(1) by (simp add: sorted_nth_mono)
    have "lerp_at s h2 - lerp_at s h1 = (h2 - h1) * (s ! hi - s ! l1)"
      using True by (simp add: lerp_at_def Let_def l1_def [symmetric] l2_def [symmetric] hi_def algebra_simps)
    moreover have "0 \<le> (h2 - h1) * (s ! hi - s ! l1)" using d assms(4) by simp
    ultimately show ?thesis by linarith
  next
    case False
    then have lt: "l1 + 1 \<le> l2" using l12 by simp
    then have m: "min (l1 + 1) (length s - 1) = l1 + 1" using l2 by simp
    have "lerp_at s h1 \<le> s ! min (l1 + 1) (length s - 1)"
      using lerp_at_bounds(2) [OF assms(1,2,3) h1] by (simp only: l1_def)
    then have "lerp_at s h1 \<le> s ! (l1 + 1)" by (simp only: m)
    also have "\<dots> \<le> s ! l2"
      using assms(1,2) lt l2 by (intro sorted_nth_mono) auto
    also have "\<dots> \<le> lerp_at s h2"
      using lerp_at_bounds(1) [OF assms(1,2) h2 assms(5)] by (simp add: l2_def)
    finally show ?thesis .
  qed
qed

lemma linear_quantile_mono:
  assumes "vs \<noteq> []" "0 \<le> q1" "q1 \<le> q2" "q2 \<le> 1"
  shows "linear_quantile vs q1 \<le> linear_quantile vs q2"
proof -
  have "q2 * real (length vs - 1) \<le> 1 * real (length vs - 1)"
    using assms(4) by (intro mult_right_mono) simp_all
  moreover have "q1 * real (length vs - 1) \<le> q2 * real (length vs - 1)"
    using assms(3) by (intro mult_right_mono) simp_all
  moreover have "0 \<le> q1 * real (length vs - 1)" using assms(2) by simp
  ultimately show ?thesis
    unfolding linear_quantile_def using assms(1)
    by (intro lerp_at_mono) (simp_all add: sort_nonempty)
qed

lemma linear_quantile_ge_Min:
  assumes "vs \<noteq> []" "0 \<le> q" "q \<le> 1"
  shows "Min (set vs) \<le> linear_quantile vs q"
proof -
  define s where "s = sort vs"
  have s: "sorted s" "s \<noteq> []" "set s = set vs" "length s = length vs"
    using assms(1) by (simp_all add: s_def sort_nonempty)
  define h where "h = q * real (length vs - 1)"
  have h: "0 \<le> h" "h \<le> real (length s - 1)"
    using assms(2,3) by (simp_all add: h_def s(4) mult_left_le_one_le)
  have "0 < length s" using s(2) by simp
  then have "nat \<lfloor>h\<rfloor> < length s" using floor_index(1) [OF h] by linarith
  then have "s ! nat \<lfloor>h\<rfloor> \<in> set vs" using s(3) nth_mem by blast
  then have "Min (set vs) \<le> s ! nat \<lfloor>h\<rfloor>" by simp
  also have "\<dots> \<le> lerp_at s h" by (rule lerp_at_bounds(1) [OF s(1,2) h])
  finally show ?thesis by (simp add: linear_quantile_def s_def h_def)
qed

lemma linear_quantile_le_Max:
  assumes "vs \<noteq> []" "0 \<le> q" "q \<le> 1"
  shows "linear_quantile vs q \<le> Max (set vs)"
proof -
  define s where "s = sort vs"
  have s: "sorted s" "s \<noteq> []" "set s = set vs" "length s = length vs"
    using assms(1) by (simp_all add: s_def sort_nonempty)
  define h where "h = q * real (length vs - 1)"
  have h: "0 \<le> h" "h \<le> real (length s - 1)"
    using assms(2,3) by (simp_all add: h_def s(4) mult_left_le_one_le)
  have "0 < length s" using s(2) by simp
  then have "min (nat \<lfloor>h\<rfloor> + 1) (length s - 1) < length s" by linarith
  then have "s ! min (nat \<lfloor>h\<rfloor> + 1) (length s - 1) \<in> set vs" using s(3) nth_mem by blast
  then have "s ! min (nat \<lfloor>h\<rfloor> + 1) (length s - 1) \<le> Max (set vs)" by simp
  moreover have "lerp_at s h \<le> s ! min (nat \<lfloor>h\<rfloor> + 1) (length s - 1)"
    by (rule lerp_at_bounds(2) [OF s(1,2) h])
  ultimately show ?thesis by (simp add: linear_quantile_def s_def h_def)
qed

section \<open>Properties of selection and grouping\<close>

lemma dropna_map_Some: "dropna (map (\<lambda>x. Some (f x)) xs) = map f xs"
  by (induction xs) (simp_all add: dropna_def)

lemma set_dropna: "set (dropna col) = {v. Some v \<in> set col}"
  by (induction col) (auto simp: dropna_def split: option.splits)

lemma dropna_empty_iff: "dropna col = [] \<longleftrightarrow> (\<forall>x\<in>set col. x = None)"
  by (induction col) (auto simp: dropna_def split: option.splits)

lemma group_key_group_min_row: "group_key (group_min_row rows k) = k"
  by (cases k) (simp add: group_min_row_def group_key_def)

lemma TMIN_mean_group_min_row:
  "TMIN_mean (group_min_row rows k) = min_skipna (map TMIN_mean (filter (\<lambda>r. group_key r = k) rows))"
  by (cases k) (simp add: group_min_row_def)

lemma groupby_min_keys:
  "map group_key (groupby_min rows) = sort (remdups (map group_key rows))"
  by (simp add: groupby_min_def comp_def group_key_group_min_row)

lemma groupby_min_distinct: "distinct (map group_key (groupby_min rows))"
  by (simp add: groupby_min_keys)

lemma groupby_min_key_set: "group_key ` set (groupby_min rows) = group_key ` set rows"
proof -
  have "set (map group_key (groupby_min rows)) = set (map group_key rows)"
    by (simp only: groupby_min_keys set_sort set_remdups)
  then show ?thesis by simp
qed

lemma groupby_min_mem:
  "r \<in> set (groupby_min rows) \<longleftrightarrow> (\<exists>k\<in>group_key ` set rows. r = group_min_row rows k)"
  by (auto simp: groupby_min_def)

lemma stats_row_eqI:
  fixes r r' :: stats_row
  assumes "group_key r = group_key r'" "TMIN_mean r = TMIN_mean r'"
  shows "r = r'"
  using assms by (simp add: group_key_def)

lemma filter_key_distinct:
  "distinct (map f xs) \<Longrightarrow> x \<in> set xs \<Longrightarrow> filter (\<lambda>y. f y = f x) xs = [x]"
proof (induction xs)
  case Nil
  then show ?case by simp
next
  case (Cons a xs)
  show ?case
  proof (cases "x = a")
    case True
    have "filter (\<lambda>y. f y = f a) xs = []"
      using Cons.prems(1) by (auto simp: filter_empty_conv) (metis imageI)
    then show ?thesis using True by simp
  next
    case False
    then have "x \<in> set xs" using Cons.prems(2) by simp
    moreover have "f a \<noteq> f x" using Cons.prems(1) \<open>x \<in> set xs\<close> by auto
    ultimately show ?thesis using Cons by simp
  qed
qed

lemma groupby_min_id:
  assumes "sorted (map group_key rows)" "distinct (map group_key rows)"
    and "\<forall>r\<in>set rows. TMIN_mean r \<noteq> None"
  shows "groupby_min rows = rows"
proof -
  have ks: "sort (remdups (map group_key rows)) = map group_key rows"
    using assms(1,2) by (simp add: distinct_remdups_id sorted_sort_id)
  have "group_min_row rows (group_key r) = r" if rin: "r \<in> set rows" for r
  proof (rule stats_row_eqI)
    show "group_key (group_min_row rows (group_key r)) = group_key r"
      by (rule group_key_group_min_row)
    obtain v where v: "TMIN_mean r = Some v" using assms(3) rin by auto
    have "filter (\<lambda>y. group_key y = group_key r) rows = [r]"
      using assms(2) rin by (rule filter_key_distinct)
    then show "TMIN_mean (group_min_row rows (group_key r)) = TMIN_mean r"
      by (simp add: TMIN_mean_group_min_row min_skipna_def dropna_def v)
  qed
  then have "map (group_min_row rows) (map group_key rows) = rows"
    by (simp add: map_idI)
  then show ?thesis by (simp only: groupby_min_def ks)
qed

lemma quantile_ok:
  "0 \<le> q \<Longrightarrow> q \<le> 1 \<Longrightarrow>
   quantile col q = Inr (if dropna col = [] then None else Some (linear_quantile (dropna col) q))"
  by (simp add: quantile_def Let_def)

lemma cohort_ok:
  "0 \<le> q \<Longrightarrow> q \<le> 1 \<Longrightarrow>
   cohort q t = Inr (groupby_min (filter (\<lambda>r. le_nan (TMIN_mean r)
      (if dropna (map TMIN_mean t) = [] then None
       else Some (linear_quantile (dropna (map TMIN_mean t)) q))) t))"
  by (simp add: cohort_def quantile_ok)

lemma le_nan_None [simp]: "le_nan x None = False"
  by (cases x) simp_all

lemma le_nan_Some: "le_nan x (Some a) \<longleftrightarrow> (\<exists>v. x = Some v \<and> v \<le> a)"
  by (cases x) simp_all

lemma groupby_min_Nil [simp]: "groupby_min [] = []"
  by (simp add: groupby_min_def)

lemma finite_district_means: "finite (district_means t k)"
proof -
  have "district_means t k \<subseteq> (\<lambda>r. the (TMIN_mean r)) ` set t"
    by (force simp: district_means_def)
  then show ?thesis by (rule finite_subset) simp
qed

lemma set_dropna_map: "set (dropna (map f xs)) = {v. \<exists>r\<in>set xs. f r = Some v}"
  by (force simp: set_dropna)

lemma selected_values:
  "set (dropna (map TMIN_mean (filter (\<lambda>r. group_key r = k)
      (filter (\<lambda>r. le_nan (TMIN_mean r) (Some a)) t)))) = {v \<in> district_means t k. v \<le> a}"
  by (auto simp: set_dropna_map district_means_def le_nan_Some)

lemma Min_below:
  assumes "finite B" "v0 \<in> B" "v0 \<le> (a::real)"
  shows "Min {v \<in> B. v \<le> a} = Min B"
proof (rule antisym)
  have "Min B \<in> B" using assms(1,2) by (intro Min_in) auto
  moreover have "Min B \<le> a" using assms by (meson Min_le order_trans)
  ultimately have "Min B \<in> {v \<in> B. v \<le> a}" by simp
  then show "Min {v \<in> B. v \<le> a} \<le> Min B" using assms(1) by (intro Min_le) auto
  show "Min B \<le> Min {v \<in> B. v \<le> a}"
    using assms by (intro Min_antimono) auto
qed

lemma min_skipna_set:
  "min_skipna col = (if set (dropna col) = {} then None else Some (Min (set (dropna col))))"
  by (simp add: min_skipna_def Let_def)

lemma group_min_row_selected:
  assumes "r0 \<in> set t" "TMIN_mean r0 = Some v0" "v0 \<le> a" "group_key r0 = k"
  shows "TMIN_mean (group_min_row (filter (\<lambda>r. le_nan (TMIN_mean r) (Some a)) t) k)
           = Some (Min (district_means t k))"
proof -
  have v0: "v0 \<in> district_means t k" using assms by (auto simp: district_means_def)
  then have ne: "{v \<in> district_means t k. v \<le> a} \<noteq> {}" using assms(3) by auto
  have "Min {v \<in> district_means t k. v \<le> a} = Min (district_means t k)"
    using finite_district_means v0 assms(3) by (rule Min_below)
  then show ?thesis
    unfolding TMIN_mean_group_min_row min_skipna_set selected_values using ne by simp
qed

lemma cohort_rows:
  "r \<in> set (groupby_min (filter (\<lambda>r. le_nan (TMIN_mean r) (Some a)) t)) \<longleftrightarrow>
   (\<exists>r0\<in>set t. \<exists>v0. TMIN_mean r0 = Some v0 \<and> v0 \<le> a \<and> group_key r = group_key r0 \<and>
      TMIN_mean r = Some (Min (district_means t (group_key r0))))"
  (is "?L \<longleftrightarrow> ?R")
proof
  assume ?L
  then obtain r0 where r0: "r0 \<in> set t" "le_nan (TMIN_mean r0) (Some a)"
    and r: "r = group_min_row (filter (\<lambda>r. le_nan (TMIN_mean r) (Some a)) t) (group_key r0)"
    by (auto simp: groupby_min_mem)
  from r0(2) obtain v0 where v0: "TMIN_mean r0 = Some v0" "v0 \<le> a"
    by (auto simp: le_nan_Some)
  have "TMIN_mean r = Some (Min (district_means t (group_key r0)))"
    unfolding r using r0(1) v0 by (intro group_min_row_selected) simp_all
  moreover have "group_key r = group_key r0" unfolding r by (rule group_key_group_min_row)
  ultimately show ?R using r0(1) v0 by blast
next
  assume ?R
  then obtain r0 v0 where r0: "r0 \<in> set t" "TMIN_mean r0 = Some v0" "v0 \<le> a"
    and k: "group_key r = group_key r0"
    and m: "TMIN_mean r = Some (Min (district_means t (group_key r0)))"
    by blast
  let ?sel = "filter (\<lambda>r. le_nan (TMIN_mean r) (Some a)) t"
  have "r = group_min_row ?sel (group_key r0)"
  proof (rule stats_row_eqI)
    show "group_key r = group_key (group_min_row ?sel (group_key r0))"
      by (simp add: k group_key_group_min_row)
    show "TMIN_mean r = TMIN_mean (group_min_row ?sel (group_key r0))"
      unfolding m using r0 by (intro group_min_row_selected [symmetric]) simp_all
  qed
  moreover have "r0 \<in> set ?sel" using r0 by simp
  ultimately show ?L unfolding groupby_min_mem by blast
qed

lemma cohort_monotone_aux:
  assumes "0 \<le> p1" "p1 \<le> p2" "p2 \<le> 1"
  shows "\<exists>c1 c2. cohort p1 t = Inr c1 \<and> cohort p2 t = Inr c2 \<and> set c1 \<subseteq> set c2"
proof -
  have p: "p1 \<le> 1" "0 \<le> p2" using assms by linarith+
  let ?vs = "dropna (map TMIN_mean t)"
  show ?thesis
  proof (cases "?vs = []")
    case True
    then show ?thesis by (simp add: cohort_ok assms p)
  next
    case False
    have le: "linear_quantile ?vs p1 \<le> linear_quantile ?vs p2"
      using False assms by (rule linear_quantile_mono)
    have "set (groupby_min (filter (\<lambda>r. le_nan (TMIN_mean r) (Some (linear_quantile ?vs p1))) t))
       \<subseteq> set (groupby_min (filter (\<lambda>r. le_nan (TMIN_mean r) (Some (linear_quantile ?vs p2))) t))"
    proof (rule subsetI)
      fix r
      assume "r \<in> set (groupby_min (filter (\<lambda>r. le_nan (TMIN_mean r) (Some (linear_quantile ?vs p1))) t))"
      then show "r \<in> set (groupby_min (filter (\<lambda>r. le_nan (TMIN_mean r) (Some (linear_quantile ?vs p2))) t))"
        unfolding cohort_rows using le by (meson order_trans)
    qed
    then show ?thesis using False by (simp add: cohort_ok assms p)
  qed
qed

section \<open>The cohort pipeline: characterisation and concrete tables\<close>

lemma cohort_row_minimum:
  assumes "r \<in> set (groupby_min (filter (\<lambda>r. le_nan (TMIN_mean r) thr) t))"
  shows "\<exists>m. TMIN_mean r = Some m \<and>
     (\<exists>r'\<in>set t. group_key r' = group_key r \<and> TMIN_mean r' = Some m \<and> le_nan (Some m) thr) \<and>
     (\<forall>r'\<in>set t. group_key r' = group_key r \<and> le_nan (TMIN_mean r') thr \<longrightarrow>
         le_nan (Some m) (TMIN_mean r'))"
proof (cases thr)
  case None
  then show ?thesis using assms by simp
next
  case (Some a)
  from assms obtain r0 v0 where r0: "r0 \<in> set t" "TMIN_mean r0 = Some v0" "v0 \<le> a"
    and k: "group_key r = group_key r0"
    and m: "TMIN_mean r = Some (Min (district_means t (group_key r0)))"
    unfolding Some cohort_rows by blast
  let ?D = "district_means t (group_key r)"
  have v0: "v0 \<in> ?D" using r0 k by (auto simp: district_means_def)
  have fin: "finite ?D" by (rule finite_district_means)
  have "Min ?D \<in> ?D" using fin v0 by (intro Min_in) auto
  then obtain r' where r': "r' \<in> set t" "group_key r' = group_key r" "TMIN_mean r' = Some (Min ?D)"
    by (auto simp: district_means_def)
  have "Min ?D \<le> v0" using fin v0 by (rule Min_le)
  then have le: "Min ?D \<le> a" using r0(3) by linarith
  have low: "le_nan (Some (Min ?D)) (TMIN_mean x)"
    if "x \<in> set t" "group_key x = group_key r \<and> le_nan (TMIN_mean x) thr" for x
  proof -
    from that(2) obtain v where v: "TMIN_mean x = Some v" by (auto simp: Some le_nan_Some)
    then have "v \<in> ?D" using that by (auto simp: district_means_def)
    then have "Min ?D \<le> v" using fin by (intro Min_le)
    then show ?thesis by (simp add: v)
  qed
  show ?thesis
    apply (rule exI [of _ "Min ?D"])
    apply (intro conjI)
      apply (simp add: m k)
     apply (rule bexI [of _ r'])
      apply (simp add: r' Some le)
     apply (rule r'(1))
    apply (intro ballI impI)
    apply (erule (1) low)
    done
qed

lemma cohort_selection_general:
  assumes "0 \<le> q" "q \<le> 1"
  shows "\<exists>thr c. quantile (map TMIN_mean t) q = Inr thr \<and> cohort q t = Inr c \<and>
      thr = (let vs = dropna (map TMIN_mean t); s = sort vs; h = q * real (length vs - 1);
                 lo = nat \<lfloor>h\<rfloor>; hi = min (lo + 1) (length vs - 1)
             in if vs = [] then None else Some (s ! lo + (h - real lo) * (s ! hi - s ! lo))) \<and>
      distinct (map group_key c) \<and>
      group_key ` set c = group_key ` {r \<in> set t. le_nan (TMIN_mean r) thr} \<and>
      (\<forall>r\<in>set c. \<exists>m. TMIN_mean r = Some m \<and>
         (\<exists>r'\<in>set t. group_key r' = group_key r \<and> TMIN_mean r' = Some m \<and> le_nan (Some m) thr) \<and>
         (\<forall>r'\<in>set t. group_key r' = group_key r \<and> le_nan (TMIN_mean r') thr \<longrightarrow>
             le_nan (Some m) (TMIN_mean r')))"
proof -
  define thr where "thr = (if dropna (map TMIN_mean t) = [] then None
       else Some (linear_quantile (dropna (map TMIN_mean t)) q))"
  let ?sel = "filter (\<lambda>r. le_nan (TMIN_mean r) thr) t"
  have q: "quantile (map TMIN_mean t) q = Inr thr"
    using assms by (simp add: quantile_ok thr_def)
  have c: "cohort q t = Inr (groupby_min ?sel)"
    using assms by (simp add: cohort_ok thr_def)
  have t: "thr = (let vs = dropna (map TMIN_mean t); s = sort vs; h = q * real (length vs - 1);
                 lo = nat \<lfloor>h\<rfloor>; hi = min (lo + 1) (length vs - 1)
             in if vs = [] then None else Some (s ! lo + (h - real lo) * (s ! hi - s ! lo)))"
    by (simp add: thr_def linear_quantile_def lerp_at_def Let_def)
  have d: "distinct (map group_key (groupby_min ?sel))" by (rule groupby_min_distinct)
  have k: "group_key ` set (groupby_min ?sel) = group_key ` {r \<in> set t. le_nan (TMIN_mean r) thr}"
    by (simp add: groupby_min_key_set)
  show ?thesis
    apply (rule exI [of _ thr], rule exI [of _ "groupby_min ?sel"])
    apply (rule conjI, rule q)
    apply (rule conjI, rule c)
    apply (rule conjI, rule t)
    apply (rule conjI, rule d)
    apply (rule conjI, rule k)
    apply (rule ballI)
    apply (erule cohort_row_minimum)
    done
qed

lemma sorted_map_real_upt: "sorted (map real [m..<n])"
  by (simp add: sorted_map)

lemma table100_means: "dropna (map TMIN_mean table100) = map real [1..<101]"
proof -
  have "map TMIN_mean table100 = map (\<lambda>i. Some (real i)) [1..<101]"
    by (simp add: table100_def row100_def comp_def)
  then show ?thesis by (simp only: dropna_map_Some)
qed

lemma table100_threshold: "global_p10 table100 = Inr (Some (109 / 10))"
proof -
  have s: "sort (map real [1..<101]) = map real [1..<101]"
    by (rule sorted_sort_id) (rule sorted_map_real_upt)
  have f: "nat \<lfloor>(99 / 10 :: real)\<rfloor> = 9" by simp
  have "linear_quantile (map real [1..<101]) (1 / 10)
      = lerp_at (map real [1..<101]) (1 / 10 * real (length (map real [1..<101]) - 1))"
    by (simp only: linear_quantile_def s)
  also have "\<dots> = 109 / 10"
    by (simp add: lerp_at_def f)
  finally have "linear_quantile (map real [1..<101]) (1 / 10) = 109 / 10" .
  then show ?thesis
    by (simp add: global_p10_def quantile_def table100_means)
qed

lemma filter_less_upt: "m \<le> k \<Longrightarrow> k \<le> n \<Longrightarrow> filter (\<lambda>i. i < k) [m..<n] = [m..<k]"
proof -
  assume a: "m \<le> k" "k \<le> n"
  then have "[m..<n] = [m..<k] @ [k..<n]" by (metis le_Suc_ex upt_add_eq_append)
  then show ?thesis by (simp add: filter_empty_conv)
qed

lemma table100_selected:
  "filter (\<lambda>r. le_nan (TMIN_mean r) (Some (109 / 10))) table100 = map row100 [1..<11]"
proof -
  have "(\<lambda>i. le_nan (TMIN_mean (row100 i)) (Some (109 / 10))) = (\<lambda>i. i < 11)"
  proof
    fix i :: nat
    have "real i \<le> 109 / 10 \<longleftrightarrow> i < 11"
    proof
      assume "real i \<le> 109 / 10"
      then have "real i < real 11" by simp
      then show "i < 11" by (simp only: of_nat_less_iff)
    next
      assume "i < 11"
      then have "i \<le> 10" by simp
      then have "real i \<le> real 10" by (simp only: of_nat_le_iff)
      then show "real i \<le> 109 / 10" by simp
    qed
    then show "le_nan (TMIN_mean (row100 i)) (Some (109 / 10)) = (i < 11)"
      by (simp add: row100_def)
  qed
  then show ?thesis
    by (simp add: table100_def filter_map comp_def filter_less_upt)
qed

lemma table100_cohort: "target_unique table100 = Inr (map row100 [1..<11])"
proof -
  have k: "map group_key (map row100 [1..<11])
      = map (\<lambda>i. (i, ascii ''PUNO'', ascii ''PUNO'', ascii ''D'')) [1..<11]"
    by (simp add: group_key_def row100_def comp_def)
  have "sorted (map group_key (map row100 [1..<11]))"
  proof -
    have "(\<lambda>x y. x < y \<or> x \<le> y) = (\<lambda>x y. x \<le> (y::nat))" by (intro ext) auto
    then show ?thesis unfolding k by (simp add: sorted_map less_eq_prod_def)
  qed
  moreover have "distinct (map group_key (map row100 [1..<11]))"
    unfolding k by (simp add: distinct_map inj_on_def)
  moreover have "\<forall>r\<in>set (map row100 [1..<11]). TMIN_mean r \<noteq> None"
    by (simp add: row100_def)
  ultimately have "groupby_min (map row100 [1..<11]) = map row100 [1..<11]"
    by (rule groupby_min_id)
  moreover have "quantile (map TMIN_mean table100) (1 / 10) = Inr (Some (109 / 10))"
    using table100_threshold by (simp add: global_p10_def)
  ultimately show ?thesis
    by (simp add: target_unique_def cohort_def table100_selected)
qed

lemma puno_loreto_tenth: "cohort (1 / 10) puno_loreto = Inr [mk_row ''PUNO'' ''PUNO'' ''ACORA'' 210102 (Some (-3))]"
  by (simp add: cohort_def groupby_min_def group_min_row_def min_skipna_def group_key_def
      quantile_def puno_loreto_def mk_row_def dropna_def linear_quantile_def lerp_at_def ascii_def)

lemma puno_loreto_nine_tenths: "cohort (9 / 10) puno_loreto =
   Inr [mk_row ''Loreto'' ''MAYNAS'' ''IQUITOS'' 160101 (Some 20), mk_row ''PUNO'' ''PUNO'' ''ACORA'' 210102 (Some (-3))]"
  by (simp add: cohort_def groupby_min_def group_min_row_def min_skipna_def group_key_def
      quantile_def puno_loreto_def mk_row_def dropna_def linear_quantile_def lerp_at_def ascii_def)

lemma puno_loreto_quantile: "quantile (map TMIN_mean puno_loreto) (1 / 10) = Inr (Some (- 9 / 10))"
  by (simp add: quantile_def puno_loreto_def mk_row_def dropna_def linear_quantile_def lerp_at_def)

lemma puno_loreto_quantile_nine_tenths:
  "quantile (map TMIN_mean puno_loreto) (9 / 10) = Inr (Some (47 / 2))"
  by (simp add: quantile_def puno_loreto_def mk_row_def dropna_def linear_quantile_def lerp_at_def)

lemma amazon_eval:
  "t_min_stats_amazonicos ucd_fragment puno_loreto =
     [mk_row ''Loreto'' ''MAYNAS'' ''IQUITOS'' 160101 (Some 20),
      mk_row ''LORETO'' ''MAYNAS'' ''PUNCHANA'' 160108 (Some 25)]"
  by (simp add: t_min_stats_amazonicos_def amazon_depts_def puno_loreto_def mk_row_def
      str_upper_def ucd_fragment_def ascii_def)

lemma amazon_cohort_eval:
  "target_unique_amazonicos ucd_fragment puno_loreto =
     Inr [mk_row ''Loreto'' ''MAYNAS'' ''IQUITOS'' 160101 (Some 20)]"
  unfolding target_unique_amazonicos_def amazon_eval
  by (simp add: cohort_def groupby_min_def group_min_row_def min_skipna_def group_key_def
      quantile_def mk_row_def dropna_def linear_quantile_def lerp_at_def ascii_def)

lemma DEPARTAMEN_group_key: "DEPARTAMEN r = fst (snd (group_key r))"
  by (simp add: group_key_def)

section \<open>Properties of the zonal statistics\<close>

lemma zonal_stats_empty [simp]: "zonal_stats num [] raster nd = Inl ValueError"
  by (simp add: zonal_stats_def)

lemma zonal_stats_nonempty:
  "gdf \<noteq> [] \<Longrightarrow> zonal_stats num gdf raster nd
     = Inr (map (\<lambda>f. feature_stats num (masked_window raster nd (geometry f))) gdf)"
  by (simp add: zonal_stats_def)

lemma compute_stats_out_of_range:
  "\<not> (1 \<le> b \<and> b \<le> int (length (bands s))) \<Longrightarrow> compute_stats num gdf s b = Inl IndexError"
  by (auto simp: compute_stats_def read_band_def)

lemma compute_stats_no_features:
  "1 \<le> b \<and> b \<le> int (length (bands s)) \<Longrightarrow> compute_stats num [] s b = Inl ValueError"
  by (simp add: compute_stats_def read_band_def)

lemma compute_stats_rows:
  "1 \<le> b \<and> b \<le> int (length (bands s)) \<Longrightarrow> gdf \<noteq> [] \<Longrightarrow>
   compute_stats num gdf s b
     = Inr (map (\<lambda>f. with_band b
               (feature_stats num (masked_window (bands s ! nat (b - 1)) (nodata s) (geometry f)))) gdf)"
  by (simp add: compute_stats_def read_band_def zonal_stats_nonempty comp_def)

lemma compute_stats_in_range:
  "1 \<le> b \<Longrightarrow> b \<le> length (bands s) \<Longrightarrow> gdf \<noteq> [] \<Longrightarrow>
   compute_stats num gdf s (int b) = Inr (band_table num gdf s b)"
  by (simp add: compute_stats_rows band_table_def feature_record_def nat_diff_distrib')

lemma sequence_map_Inr: "sequence (map (\<lambda>x. Inr (f x)) xs) = Inr (map f xs)"
  by (induction xs) simp_all

lemma all_stats_eq:
  assumes "gdf \<noteq> []"
  shows "all_stats num gdf s = Inr (map (band_table num gdf s) [1..<length (bands s) + 1])"
proof -
  have "map (\<lambda>b. compute_stats num gdf s (int b)) [1..<length (bands s) + 1]
      = map (\<lambda>b. Inr (band_table num gdf s b)) [1..<length (bands s) + 1]"
    using assms by (intro map_cong) (auto intro!: compute_stats_in_range)
  then show ?thesis by (simp only: all_stats_def sequence_map_Inr)
qed

lemma length_band_table [simp]: "length (band_table num gdf s b) = length gdf"
  by (simp add: band_table_def)

lemma BAND_with_band [simp]: "BAND (with_band b z) = b"
  by (simp add: with_band_def zonal.extend_def zonal_row.fields_def)

lemma YEAR_with_band [simp]: "YEAR (with_band b z) = 2019 + b"
  by (simp add: with_band_def zonal.extend_def zonal_row.fields_def)

lemma zip_replicate_concat:
  assumes "\<forall>b\<in>set bs. length (g b) = length xs"
  shows "zip (concat (replicate (length bs) xs)) (concat (map g bs)) = concat (map (\<lambda>b. zip xs (g b)) bs)"
  using assms by (induction bs) simp_all

lemma zip_map_same: "zip xs (map h xs) = map (\<lambda>x. (x, h x)) xs"
  by (induction xs) simp_all

lemma result_rows:
  assumes "bands s \<noteq> []" "gdf \<noteq> []"
  shows "result num gdf s =
     Inr (concat (map (\<lambda>b. map (\<lambda>f. (f, feature_record num s b f)) gdf) [1..<length (bands s) + 1]))"
proof -
  let ?bs = "[1..<length (bands s) + 1]"
  have n: "length ?bs = length (bands s)" by (simp only: length_upt add_diff_cancel_right')
  have "?bs \<noteq> []" using assms(1) n by (metis length_0_conv)
  then have ne: "map (band_table num gdf s) ?bs \<noteq> []" by (simp only: map_is_Nil_conv not_False_eq_True)
  have st: "stats_df num gdf s = Inr (concat (map (band_table num gdf s) ?bs))"
    using ne by (simp only: stats_df_def all_stats_eq [OF assms(2)] pd_concat_def sum.case if_False)
  have rp: "gdf_repeated gdf s = Inr (concat (replicate (length ?bs) gdf))"
    unfolding n using assms(1) by (simp add: gdf_repeated_def pd_concat_def)
  have "zip (concat (replicate (length ?bs) gdf)) (concat (map (band_table num gdf s) ?bs))
      = concat (map (\<lambda>b. zip gdf (band_table num gdf s b)) ?bs)"
    by (rule zip_replicate_concat) simp
  then have "result num gdf s = Inr (concat (map (\<lambda>b. zip gdf (band_table num gdf s b)) ?bs))"
    by (simp only: result_def st rp sum.case)
  then show ?thesis by (simp only: band_table_def zip_map_same)
qed

lemma result_no_features: "result num [] s = Inl ValueError"
proof (cases "bands s = []")
  case True
  then show ?thesis by (simp add: result_def stats_df_def all_stats_def pd_concat_def)
next
  case False
  then have "1 < length (bands s) + 1" by simp
  then have u: "[1..<length (bands s) + 1] = 1 # [Suc 1..<length (bands s) + 1]"
    by (rule upt_conv_Cons)
  have c: "compute_stats num [] s (int 1) = Inl ValueError"
    using False by (intro compute_stats_no_features) (simp add: Suc_le_eq)
  have "all_stats num [] s = Inl ValueError"
    unfolding all_stats_def u by (simp only: list.map c sequence.simps)
  then show ?thesis by (simp add: result_def stats_df_def)
qed

lemma length_concat_const:
  "length (concat (map (\<lambda>b. map (g b) xs) bs)) = length bs * length xs"
  by (induction bs) simp_all

lemma map_fst_concat_pairs:
  "map fst (concat (map (\<lambda>b. map (\<lambda>x. (x, g b x)) xs) bs)) = concat (replicate (length bs) xs)"
  by (induction bs) (simp_all add: comp_def)

lemma BAND_feature_record [simp]: "BAND (feature_record num s b f) = int b"
  by (simp add: feature_record_def)

lemma map_band_concat_pairs:
  "map (\<lambda>r. BAND (snd r)) (concat (map (\<lambda>b. map (\<lambda>f. (f, feature_record num s b f)) xs) bs))
     = concat (map (\<lambda>b. replicate (length xs) (int b)) bs)"
  by (induction bs) (simp_all add: comp_def map_replicate_const)

lemma keys_concat_pairs:
  "map (\<lambda>r. (UBIGEO (fst r), BAND (snd r)))
       (concat (map (\<lambda>b. map (\<lambda>f. (f, feature_record num s b f)) xs) bs))
     = concat (map (\<lambda>b. map (\<lambda>f. (UBIGEO f, int b)) xs) bs)"
  by (induction bs) (simp_all add: comp_def)

lemma rows_own_statistics:
  "r \<in> set (concat (map (\<lambda>b. map (\<lambda>f. (f, feature_record num s b f)) xs) bs)) \<Longrightarrow>
   snd r = feature_record num s (nat (BAND (snd r))) (fst r)"
  by auto

lemma distinct_keys:
  assumes "distinct bs" "distinct (map UBIGEO xs)"
  shows "distinct (concat (map (\<lambda>b. map (\<lambda>f. (UBIGEO f, int b)) xs) bs))"
  using assms(1)
proof (induction bs)
  case Nil
  then show ?case by simp
next
  case (Cons b bs)
  have "distinct (map (\<lambda>f. (UBIGEO f, int b)) xs)"
    using assms(2) by (simp add: distinct_map inj_on_def)
  moreover have "set (map (\<lambda>f. (UBIGEO f, int b)) xs)
      \<inter> set (concat (map (\<lambda>b. map (\<lambda>f. (UBIGEO f, int b)) xs) bs)) = {}"
    using Cons.prems by auto
  ultimately show ?case using Cons by simp
qed

lemma zonal_fields_with_band [simp]:
  "count (with_band b z) = count z" "mean (with_band b z) = mean z"
  "min_stat (with_band b z) = min_stat z" "max_stat (with_band b z) = max_stat z"
  "std (with_band b z) = std z" "p10 (with_band b z) = p10 z" "p90 (with_band b z) = p90 z"
  "range_stat (with_band b z) = range_stat z"
  by (simp_all add: with_band_def zonal.extend_def)

lemma feature_stats_empty:
  assumes "compressed x = []"
  shows "count (feature_stats num x) = 0" "mean (feature_stats num x) = None"
    "min_stat (feature_stats num x) = None" "max_stat (feature_stats num x) = None"
    "std (feature_stats num x) = None"
  using assms by (simp_all add: feature_stats_def)

lemma compressed_nonempty_window: "compressed x \<noteq> [] \<Longrightarrow> 0 < length x"
  by (cases x) (simp_all add: compressed_def dropna_def)

lemma compressed_subset_data: "set (compressed x) \<subseteq> set (dropna (concat (np_array x)))"
  by (auto simp: compressed_def np_array_def set_dropna)

lemma feature_stats_valid:
  assumes "compressed x \<noteq> []"
  shows "\<exists>lo hi m sd a c. min_stat (feature_stats num x) = Some lo \<and>
     max_stat (feature_stats num x) = Some hi \<and> mean (feature_stats num x) = Some m \<and>
     std (feature_stats num x) = Some sd \<and>
     range_stat (feature_stats num x) = Some (hi - lo) \<and> lo \<le> hi \<and>
     p10 (feature_stats num x) = Some a \<and> p90 (feature_stats num x) = Some c \<and> a \<le> c"
proof -
  let ?vs = "compressed x"
  let ?ws = "dropna (concat (np_array x))"
  have len: "0 < length x" using assms by (rule compressed_nonempty_window)
  have ws: "?ws \<noteq> []" using assms compressed_subset_data [of x] by auto
  have 1: "min_stat (feature_stats num x) = Some (Min (set ?vs))"
    and 2: "max_stat (feature_stats num x) = Some (Max (set ?vs))"
    and 3: "mean (feature_stats num x) = Some (np_mean num ?vs)"
    and 9: "std (feature_stats num x) = Some (np_std num ?vs)"
    using assms by (simp_all add: feature_stats_def Let_def)
  have 4: "range_stat (feature_stats num x) = Some (Max (set ?vs) - Min (set ?vs))"
    using assms len by (simp add: feature_stats_def add_range_def nanmax_def nanmin_def Let_def)
  have 5: "p10 (feature_stats num x) = Some (linear_quantile ?ws (10 / 100))"
    and 6: "p90 (feature_stats num x) = Some (linear_quantile ?ws (90 / 100))"
    using ws len by (simp_all add: feature_stats_def add_p10_def add_p90_def nanpercentile_def Let_def)
  have 7: "linear_quantile ?ws (10 / 100) \<le> linear_quantile ?ws (90 / 100)"
    using ws by (rule linear_quantile_mono) simp_all
  have 8: "Min (set ?vs) \<le> Max (set ?vs)" using assms by simp
  from 1 2 3 9 4 5 6 7 8 show ?thesis by blast
qed

lemma count_feature_stats: "count (feature_stats num x) = length (compressed x)"
  by (simp add: feature_stats_def Let_def)

subsection \<open>The concrete rasters\<close>

lemma district_A_window: "masked_window (hd (bands block5)) (- 9999) (geometry district_A)
   = [[(Some 5, False), (Some 5, False)], [(Some 5, False), (Some 5, False)]]"
  by code_simp

lemma district_B_window:
  "masked_window (hd (bands block5)) (- 9999) (geometry district_B) = [[(Some (- 9999), True)]]"
  by code_simp

lemma district_A_stats:
  "feature_stats exact_numerics
     [[(Some 5, False), (Some 5, False)], [(Some 5, False), (Some 5, False)]]
  = \<lparr>count = 4, mean = Some 5, min_stat = Some 5, max_stat = Some 5, std = Some 0,
      p10 = Some 5, p90 = Some 5, range_stat = Some 0\<rparr>"
  by (simp add: feature_stats_def compressed_def np_array_def nanpercentile_def
      nanmax_def nanmin_def add_p10_def add_p90_def add_range_def exact_numerics_def
      dropna_def linear_quantile_def lerp_at_def Let_def)

lemma district_B_stats: "feature_stats num [[(Some (- 9999), True)]]
  = \<lparr>count = 0, mean = None, min_stat = None, max_stat = None, std = None,
      p10 = Some (- 9999), p90 = Some (- 9999), range_stat = None\<rparr>"
  by (simp add: feature_stats_def compressed_def np_array_def nanpercentile_def
      nanmax_def nanmin_def add_p10_def add_p90_def add_range_def
      dropna_def linear_quantile_def lerp_at_def Let_def)

lemma block5_band:
  "read_band block5 1 = Inr (hd (bands block5))" "bands block5 ! 0 = hd (bands block5)"
  "nodata block5 = - 9999"
  by (simp_all add: read_band_def block5_def)

lemma block5_rows: "compute_stats exact_numerics [district_A, district_B] block5 1 = Inr
   [\<lparr>count = 4, mean = Some 5, min_stat = Some 5, max_stat = Some 5, std = Some 0,
      p10 = Some 5, p90 = Some 5, range_stat = Some 0, BAND = 1, YEAR = 2020\<rparr>,
    \<lparr>count = 0, mean = None, min_stat = None, max_stat = None, std = None,
      p10 = Some (- 9999), p90 = Some (- 9999), range_stat = None, BAND = 1, YEAR = 2020\<rparr>]"
  by (simp add: compute_stats_def block5_band zonal_stats_def district_A_window
      district_B_window district_A_stats district_B_stats with_band_def
      zonal.extend_def zonal_row.fields_def)

lemma strip_window:
  "masked_window (hd (bands skewed)) (- 9999) (geometry strip)
     = [[(Some 0, False), (Some 0, False), (Some 0, False), (Some 0, False), (Some 0, False),
         (Some 0, False), (Some 0, False), (Some 0, False), (Some 0, False), (Some 0, False),
         (Some 0, False), (Some 120, False)]]"
  by code_simp

lemma strip_summary:
  "summary (with_band 1 (feature_stats exact_numerics
      [[(Some 0, False), (Some 0, False), (Some 0, False), (Some 0, False), (Some 0, False),
        (Some 0, False), (Some 0, False), (Some 0, False), (Some 0, False), (Some 0, False),
        (Some 0, False), (Some 120, False)]]))
    = (12, Some 0, Some 0, Some 10, Some 0, Some 120, Some 120)"
  by (simp add: summary_def feature_stats_def compressed_def np_array_def nanpercentile_def
      nanmax_def nanmin_def add_p10_def add_p90_def add_range_def exact_numerics_def
      dropna_def linear_quantile_def lerp_at_def Let_def)

lemma two_bands_windows:
  "masked_window (bands two_bands ! 0) (nodata two_bands) (geometry district_A)
     = [[(Some 5, False), (Some 5, False)], [(Some 5, False), (Some 5, False)]]"
  "masked_window (bands two_bands ! Suc 0) (nodata two_bands) (geometry district_A)
     = [[(Some 6, False), (Some 6, False)], [(Some 6, False), (Some 6, False)]]"
  "masked_window (bands two_bands ! 0) (nodata two_bands) (geometry district_B)
     = [[(Some (- 9999), True)]]"
  "masked_window (bands two_bands ! Suc 0) (nodata two_bands) (geometry district_B)
     = [[(Some (- 9999), True)]]"
  by code_simp+

lemma band6_stats:
  "feature_stats exact_numerics
     [[(Some 6, False), (Some 6, False)], [(Some 6, False), (Some 6, False)]]
  = \<lparr>count = 4, mean = Some 6, min_stat = Some 6, max_stat = Some 6, std = Some 0,
      p10 = Some 6, p90 = Some 6, range_stat = Some 0\<rparr>"
  by (simp add: feature_stats_def compressed_def np_array_def nanpercentile_def
      nanmax_def nanmin_def add_p10_def add_p90_def add_range_def exact_numerics_def
      dropna_def linear_quantile_def lerp_at_def Let_def)

lemma two_bands_result:
  "result exact_numerics [district_A, district_B] two_bands = Inr
     [(district_A, \<lparr>count = 4, mean = Some 5, min_stat = Some 5, max_stat = Some 5, std = Some 0,
         p10 = Some 5, p90 = Some 5, range_stat = Some 0, BAND = 1, YEAR = 2020\<rparr>),
      (district_B, \<lparr>count = 0, mean = None, min_stat = None, max_stat = None, std = None,
         p10 = Some (- 9999), p90 = Some (- 9999), range_stat = None, BAND = 1, YEAR = 2020\<rparr>),
      (district_A, \<lparr>count = 4, mean = Some 6, min_stat = Some 6, max_stat = Some 6, std = Some 0,
         p10 = Some 6, p90 = Some 6, range_stat = Some 0, BAND = 2, YEAR = 2021\<rparr>),
      (district_B, \<lparr>count = 0, mean = None, min_stat = None, max_stat = None, std = None,
         p10 = Some (- 9999), p90 = Some (- 9999), range_stat = None, BAND = 2, YEAR = 2021\<rparr>)]"
proof -
  have h: "bands two_bands \<noteq> []" "[district_A, district_B] \<noteq> []" by (simp_all add: two_bands_def)
  have l: "length (bands two_bands) = 2" by (simp add: two_bands_def)
  have u: "[1..<2 + 1] = [1, 2::nat]" by code_simp
  have d: "(2::nat) - 1 = 1" "(1::nat) - 1 = 0" by simp_all
  show ?thesis
    unfolding result_rows [OF h] l u
    by (simp add: feature_record_def d two_bands_windows district_A_stats district_B_stats
        band6_stats with_band_def zonal.extend_def zonal_row.fields_def)
qed

section \<open>Claims about the zonal statistics\<close>

text \<open>
  Claim C1 says that a feature whose polygon covers no valid cell gets a record with
  \<open>count = 0\<close> and every statistic not-a-number. District B lies outside the raster:
  its window is one cell filled with the nodata value, masked, and no cell is valid. The
  record has \<open>count = 0\<close> and no mean, minimum, maximum, standard deviation or range, but
  its \<open>p10\<close> and \<open>p90\<close> are the nodata value -9999: the guard \<open>len(x) > 0\<close> counts the
  rows of the window, and \<open>np.array(x, copy=True)\<close> hands the percentile the stored
  values without their mask. This holds whatever the mean and the standard deviation
  compute, since they are not called.
\<close>

theorem compute_stats_outside_extent:
  "compressed (masked_window (hd (bands block5)) (nodata block5) (geometry district_B)) = [] \<and>
   compute_stats num [district_B] block5 1 = Inr
     [\<lparr>count = 0, mean = None, min_stat = None, max_stat = None, std = None,
       p10 = Some (- 9999), p90 = Some (- 9999), range_stat = None, BAND = 1, YEAR = 2020\<rparr>]"
  by (simp add: compute_stats_def block5_band zonal_stats_def district_B_window district_B_stats
      with_band_def zonal.extend_def zonal_row.fields_def compressed_def dropna_def)

text \<open>
  Claim C2 as stated (for \<open>count > 0\<close>: \<open>range = max - min\<close> and
  \<open>min \<le> p10 \<le> mean \<le> p90 \<le> max\<close>) does not hold: a mean need not lie between the
  tenth and the ninetieth percentile. Eleven cells of value 0 and one of value 120, all
  valid and covered, have the mean 10 (the sum 120 and the quotient are exact in floating
  point) and the ninetieth percentile 0. The row is shown as count, min, p10, mean, p90,
  max, range.
\<close>

theorem compute_stats_mean_above_p90:
  "map_sum id (map summary) (compute_stats exact_numerics [strip] skewed 1)
     = Inr [(12, Some 0, Some 0, Some 10, Some 0, Some 120, Some 120)]"
proof -
  have b: "read_band skewed 1 = Inr (hd (bands skewed))"
    by (simp add: read_band_def skewed_def)
  have n: "nodata skewed = - 9999" by (simp add: skewed_def)
  show ?thesis
    by (simp add: compute_stats_def b n zonal_stats_def strip_window strip_summary)
qed

text \<open>
  Claim C2, amended. Every record of \<open>compute_stats\<close> with \<open>count > 0\<close> has numbers in
  all its statistics (mean, min, max, standard deviation, p10, p90, range),
  \<open>range = max - min\<close>, \<open>min \<le> max\<close> and \<open>p10 \<le> p90\<close>. Nothing is said of where the
  mean lies: it need not lie between the percentiles, and its rounding can put it
  outside the interval from min to max.
\<close>

theorem compute_stats_ordering:
  assumes "compute_stats num gdf s b = Inr rows" "r \<in> set rows" "0 < count r"
  shows "\<exists>lo hi m sd a c. min_stat r = Some lo \<and> max_stat r = Some hi \<and> mean r = Some m \<and>
     std r = Some sd \<and> range_stat r = Some (hi - lo) \<and> lo \<le> hi \<and>
     p10 r = Some a \<and> p90 r = Some c \<and> a \<le> c"
proof -
  from assms(1,2) obtain x where r: "r = with_band b (feature_stats num x)"
    by (auto simp: compute_stats_def zonal_stats_def split: sum.splits if_splits)
  from assms(3) have "compressed x \<noteq> []" by (simp add: r count_feature_stats)
  from feature_stats_valid [OF this, of num] show ?thesis by (simp add: r)
qed

theorem compute_stats_ordering_witness:
  "compute_stats exact_numerics [district_A, district_B] block5 1 = Inr
     [\<lparr>count = 4, mean = Some 5, min_stat = Some 5, max_stat = Some 5, std = Some 0,
        p10 = Some 5, p90 = Some 5, range_stat = Some 0, BAND = 1, YEAR = 2020\<rparr>,
      \<lparr>count = 0, mean = None, min_stat = None, max_stat = None, std = None,
        p10 = Some (- 9999), p90 = Some (- 9999), range_stat = None, BAND = 1, YEAR = 2020\<rparr>] \<and>
   (\<exists>lo hi m sd a c. Some (5::real) = Some lo \<and> Some (5::real) = Some hi \<and>
      Some (5::real) = Some m \<and> Some (0::real) = Some sd \<and>
      Some (0::real) = Some (hi - lo) \<and> lo \<le> hi \<and>
      Some (5::real) = Some a \<and> Some (5::real) = Some c \<and> a \<le> c)"
proof -
  let ?A = "\<lparr>count = 4, mean = Some 5, min_stat = Some 5, max_stat = Some 5, std = Some 0,
        p10 = Some 5, p90 = Some 5, range_stat = Some 0, BAND = 1, YEAR = 2020\<rparr>"
  let ?B = "\<lparr>count = 0, mean = None, min_stat = None, max_stat = None, std = None,
        p10 = Some (- 9999), p90 = Some (- 9999), range_stat = None, BAND = 1, YEAR = 2020\<rparr>"
  have m: "?A \<in> set [?A, ?B]" by simp
  have c: "0 < count ?A" by simp
  from compute_stats_ordering [OF block5_rows m c] block5_rows show ?thesis by simp
qed

text \<open>
  Claim C7 as stated (an empty boundary collection fails with \<open>EmptyInputError\<close>, an
  absent or malformed transform or shape with \<open>ShapeMismatchError\<close>) does not hold: the
  script defines no exception. On an empty collection \<open>compute_stats\<close> fails with the
  \<open>ValueError\<close> that \<open>zonal_stats\<close> raises, and on a band index that the raster does not
  have with the \<open>IndexError\<close> of \<open>src.read\<close>.
\<close>

theorem compute_stats_empty_collection:
  "compute_stats exact_numerics [] block5 1 = Inl ValueError \<and>
   compute_stats exact_numerics [district_A] block5 2 = Inl IndexError"
  by (simp add: compute_stats_def read_band_def block5_def)

text \<open>
  Claim C7, amended. \<open>compute_stats\<close> checks neither the transform nor the collection
  and raises no exception of its own. With a band index that is not a band of the raster
  it fails with \<open>IndexError\<close>; with a band of the raster and an empty collection it
  fails with \<open>ValueError\<close>; with a band of the raster and a collection that is not empty
  it returns one record per feature, and a feature without a valid cell gets a record
  with \<open>count = 0\<close> and no mean, minimum, maximum or standard deviation, which is no
  error.
\<close>

theorem compute_stats_outcome:
  "(\<not> (1 \<le> b \<and> b \<le> int (length (bands s))) \<longrightarrow> compute_stats num gdf s b = Inl IndexError) \<and>
   (1 \<le> b \<and> b \<le> int (length (bands s)) \<and> gdf = [] \<longrightarrow>
      compute_stats num gdf s b = Inl ValueError) \<and>
   (1 \<le> b \<and> b \<le> int (length (bands s)) \<and> gdf \<noteq> [] \<longrightarrow>
      (\<exists>rows. compute_stats num gdf s b = Inr rows \<and> length rows = length gdf \<and>
         (\<forall>i<length gdf.
            compressed (masked_window (bands s ! nat (b - 1)) (nodata s) (geometry (gdf ! i))) = [] \<longrightarrow>
            count (rows ! i) = 0 \<and> mean (rows ! i) = None \<and> min_stat (rows ! i) = None \<and>
            max_stat (rows ! i) = None \<and> std (rows ! i) = None)))"
proof (intro conjI impI)
  assume "\<not> (1 \<le> b \<and> b \<le> int (length (bands s)))"
  then show "compute_stats num gdf s b = Inl IndexError" by (rule compute_stats_out_of_range)
next
  assume "1 \<le> b \<and> b \<le> int (length (bands s)) \<and> gdf = []"
  then show "compute_stats num gdf s b = Inl ValueError" by (simp add: compute_stats_no_features)
next
  assume a: "1 \<le> b \<and> b \<le> int (length (bands s)) \<and> gdf \<noteq> []"
  let ?rows = "map (\<lambda>f. with_band b
      (feature_stats num (masked_window (bands s ! nat (b - 1)) (nodata s) (geometry f)))) gdf"
  have 1: "compute_stats num gdf s b = Inr ?rows"
    using a by (intro compute_stats_rows) simp_all
  have 2: "length ?rows = length gdf" by simp
  have 3: "count (?rows ! i) = 0 \<and> mean (?rows ! i) = None \<and> min_stat (?rows ! i) = None \<and>
            max_stat (?rows ! i) = None \<and> std (?rows ! i) = None"
    if "i < length gdf"
      "compressed (masked_window (bands s ! nat (b - 1)) (nodata s) (geometry (gdf ! i))) = []" for i
    using that by (simp add: feature_stats_empty)
  show "\<exists>rows. compute_stats num gdf s b = Inr rows \<and> length rows = length gdf \<and>
         (\<forall>i<length gdf.
            compressed (masked_window (bands s ! nat (b - 1)) (nodata s) (geometry (gdf ! i))) = [] \<longrightarrow>
            count (rows ! i) = 0 \<and> mean (rows ! i) = None \<and> min_stat (rows ! i) = None \<and>
            max_stat (rows ! i) = None \<and> std (rows ! i) = None)"
    apply (rule exI [of _ ?rows])
    apply (rule conjI, rule 1)
    apply (rule conjI, rule 2)
    apply (intro allI impI)
    apply (erule (1) 3)
    done
qed

theorem compute_stats_outcome_witness:
  "\<not> ((1::int) \<le> 5 \<and> 5 \<le> int (length (bands block5))) \<and>
   compute_stats exact_numerics [district_A, district_B] block5 5 = Inl IndexError \<and>
   ((1::int) \<le> 1 \<and> 1 \<le> int (length (bands block5)) \<and> ([] :: feature list) = []) \<and>
   compute_stats exact_numerics [] block5 1 = Inl ValueError \<and>
   ((1::int) \<le> 1 \<and> 1 \<le> int (length (bands block5)) \<and> [district_A, district_B] \<noteq> []) \<and>
   (\<exists>rows. compute_stats exact_numerics [district_A, district_B] block5 1 = Inr rows \<and>
      length rows = 2 \<and> count (rows ! 1) = 0 \<and> mean (rows ! 1) = None)"
proof -
  note o = compute_stats_outcome [of 5 block5 exact_numerics "[district_A, district_B]"]
  note e = compute_stats_outcome [of 1 block5 exact_numerics "[]"]
  note w = compute_stats_outcome [of 1 block5 exact_numerics "[district_A, district_B]"]
  have n: "\<not> ((1::int) \<le> 5 \<and> 5 \<le> int (length (bands block5)))" by (simp add: block5_def)
  have h0: "(1::int) \<le> 1 \<and> 1 \<le> int (length (bands block5)) \<and> ([] :: feature list) = []"
    by (simp add: block5_def)
  have h: "(1::int) \<le> 1 \<and> 1 \<le> int (length (bands block5)) \<and> [district_A, district_B] \<noteq> []"
    by (simp add: block5_def)
  have 1: "compute_stats exact_numerics [district_A, district_B] block5 5 = Inl IndexError"
    by (rule o [THEN conjunct1, THEN mp, OF n])
  have 2: "compute_stats exact_numerics [] block5 1 = Inl ValueError"
    by (rule e [THEN conjunct2, THEN conjunct1, THEN mp, OF h0])
  from w [THEN conjunct2, THEN conjunct2, THEN mp, OF h]
  obtain rows where r: "compute_stats exact_numerics [district_A, district_B] block5 1 = Inr rows \<and>
    length rows = length [district_A, district_B] \<and>
    (\<forall>i<length [district_A, district_B].
       compressed (masked_window (bands block5 ! nat (1 - 1)) (nodata block5)
         (geometry ([district_A, district_B] ! i))) = [] \<longrightarrow>
       count (rows ! i) = 0 \<and> mean (rows ! i) = None \<and> min_stat (rows ! i) = None \<and>
       max_stat (rows ! i) = None \<and> std (rows ! i) = None)" ..
  have c: "compressed (masked_window (bands block5 ! nat (1 - 1)) (nodata block5)
      (geometry ([district_A, district_B] ! 1))) = []"
    by (simp add: block5_band district_B_window compressed_def dropna_def)
  from r have r1: "compute_stats exact_numerics [district_A, district_B] block5 1 = Inr rows"
    by (rule conjunct1)
  from r have r2: "length rows = 2" by simp
  from r have "(1::nat) < length [district_A, district_B] \<longrightarrow>
       compressed (masked_window (bands block5 ! nat (1 - 1)) (nodata block5)
         (geometry ([district_A, district_B] ! 1))) = [] \<longrightarrow>
       count (rows ! 1) = 0 \<and> mean (rows ! 1) = None \<and> min_stat (rows ! 1) = None \<and>
       max_stat (rows ! 1) = None \<and> std (rows ! 1) = None"
    by (elim conjE allE [of _ 1])
  with c have "count (rows ! 1) = 0 \<and> mean (rows ! 1) = None" by simp
  with r1 r2 have x: "\<exists>rows. compute_stats exact_numerics [district_A, district_B] block5 1 = Inr rows \<and>
      length rows = 2 \<and> count (rows ! 1) = 0 \<and> mean (rows ! 1) = None" by simp
  show ?thesis
    apply (intro conjI)
            apply (rule n)
           apply (rule 1)
          apply (simp add: block5_def)
         apply (simp add: block5_def)
        apply simp
       apply (rule 2)
      apply simp
     apply (simp add: block5_def)
    apply simp
    apply (rule x)
    done
qed

text \<open>
  Claim C8. For a raster of \<open>N\<close> bands and a collection of \<open>M\<close> features, both at least
  1, the table \<open>result\<close> has \<open>N * M\<close> rows; its feature columns are the collection
  repeated \<open>N\<close> times, its band column holds each band index from 1 to \<open>N\<close> \<open>M\<close> times
  in a row, the statistics of every row are those of the row's own feature in the
  row's band, and when the district identifiers of the collection are distinct, so are
  the pairs of district identifier and band of the rows.
\<close>

theorem result_table_shape:
  assumes "bands s \<noteq> []" "gdf \<noteq> []"
  shows "\<exists>rows. result num gdf s = Inr rows \<and> length rows = length (bands s) * length gdf \<and>
     map fst rows = concat (replicate (length (bands s)) gdf) \<and>
     map (\<lambda>r. BAND (snd r)) rows
       = concat (map (\<lambda>b. replicate (length gdf) (int b)) [1..<length (bands s) + 1]) \<and>
     (\<forall>r\<in>set rows. snd r = feature_record num s (nat (BAND (snd r))) (fst r)) \<and>
     (distinct (map UBIGEO gdf) \<longrightarrow> distinct (map (\<lambda>r. (UBIGEO (fst r), BAND (snd r))) rows))"
proof -
  let ?bs = "[1..<length (bands s) + 1]"
  let ?rows = "concat (map (\<lambda>b. map (\<lambda>f. (f, feature_record num s b f)) gdf) ?bs)"
  have n: "length ?bs = length (bands s)" by (simp only: length_upt add_diff_cancel_right')
  have 1: "result num gdf s = Inr ?rows" by (rule result_rows [OF assms])
  have 2: "length ?rows = length (bands s) * length gdf"
    by (simp only: length_concat_const n)
  have 3: "map fst ?rows = concat (replicate (length (bands s)) gdf)"
    by (simp only: map_fst_concat_pairs n)
  have 4: "map (\<lambda>r. BAND (snd r)) ?rows = concat (map (\<lambda>b. replicate (length gdf) (int b)) ?bs)"
    by (rule map_band_concat_pairs)
  have 5: "snd r = feature_record num s (nat (BAND (snd r))) (fst r)" if "r \<in> set ?rows" for r
    using that by (rule rows_own_statistics)
  have 6: "distinct (map (\<lambda>r. (UBIGEO (fst r), BAND (snd r))) ?rows)" if "distinct (map UBIGEO gdf)"
    unfolding keys_concat_pairs using that by (intro distinct_keys) simp_all
  show ?thesis
    apply (rule exI [of _ ?rows])
    apply (rule conjI, rule 1)
    apply (rule conjI, rule 2)
    apply (rule conjI, rule 3)
    apply (rule conjI, rule 4)
    apply (rule conjI)
     apply (rule ballI, erule 5)
    apply (rule impI, erule 6)
    done
qed

theorem result_table_shape_witness:
  "bands two_bands \<noteq> [] \<and> [district_A, district_B] \<noteq> [] \<and>
   (\<exists>rows. result exact_numerics [district_A, district_B] two_bands = Inr rows \<and> length rows = 4 \<and>
      map fst rows = [district_A, district_B, district_A, district_B] \<and>
      map (\<lambda>r. BAND (snd r)) rows = [1, 1, 2, 2] \<and>
      map (\<lambda>r. (count (snd r), mean (snd r))) rows
        = [(4, Some 5), (0, None), (4, Some 6), (0, None)] \<and>
      map (\<lambda>r. (UBIGEO (fst r), BAND (snd r))) rows = [(1, 1), (2, 1), (1, 2), (2, 2)] \<and>
      distinct (map (\<lambda>r. (UBIGEO (fst r), BAND (snd r))) rows))"
proof -
  have h: "bands two_bands \<noteq> []" and g: "[district_A, district_B] \<noteq> []"
    by (simp_all add: two_bands_def)
  have d: "distinct (map UBIGEO [district_A, district_B])"
    by (simp add: district_A_def district_B_def)
  from result_table_shape [OF h g, of exact_numerics]
  obtain rows where r0: "result exact_numerics [district_A, district_B] two_bands = Inr rows \<and>
    length rows = length (bands two_bands) * length [district_A, district_B] \<and>
    map fst rows = concat (replicate (length (bands two_bands)) [district_A, district_B]) \<and>
    map (\<lambda>r. BAND (snd r)) rows
       = concat (map (\<lambda>b. replicate (length [district_A, district_B]) (int b))
           [1..<length (bands two_bands) + 1]) \<and>
    (\<forall>r\<in>set rows. snd r = feature_record exact_numerics two_bands (nat (BAND (snd r))) (fst r)) \<and>
    (distinct (map UBIGEO [district_A, district_B]) \<longrightarrow>
       distinct (map (\<lambda>r. (UBIGEO (fst r), BAND (snd r))) rows))" ..
  note r1 = r0 [THEN conjunct1]
  note r6 = r0 [THEN conjunct2, THEN conjunct2, THEN conjunct2, THEN conjunct2, THEN conjunct2]
  from r1 have rows: "rows = [(district_A, \<lparr>count = 4, mean = Some 5, min_stat = Some 5, max_stat = Some 5, std = Some 0,
         p10 = Some 5, p90 = Some 5, range_stat = Some 0, BAND = 1, YEAR = 2020\<rparr>),
      (district_B, \<lparr>count = 0, mean = None, min_stat = None, max_stat = None, std = None,
         p10 = Some (- 9999), p90 = Some (- 9999), range_stat = None, BAND = 1, YEAR = 2020\<rparr>),
      (district_A, \<lparr>count = 4, mean = Some 6, min_stat = Some 6, max_stat = Some 6, std = Some 0,
         p10 = Some 6, p90 = Some 6, range_stat = Some 0, BAND = 2, YEAR = 2021\<rparr>),
      (district_B, \<lparr>count = 0, mean = None, min_stat = None, max_stat = None, std = None,
         p10 = Some (- 9999), p90 = Some (- 9999), range_stat = None, BAND = 2, YEAR = 2021\<rparr>)]"
    by (simp add: two_bands_result)
  from r6 d have 6: "distinct (map (\<lambda>r. (UBIGEO (fst r), BAND (snd r))) rows)" by (rule mp)
  have 5: "map (\<lambda>r. (UBIGEO (fst r), BAND (snd r))) rows = [(1, 1), (2, 1), (1, 2), (2, 2)]"
    by (simp add: rows district_A_def district_B_def)
  show ?thesis
    apply (rule conjI, rule h)
    apply (rule conjI, rule g)
    apply (rule exI [of _ rows])
    apply (intro conjI)
          apply (rule r1)
         apply (simp add: rows)
        apply (simp add: rows)
       apply (simp add: rows)
      apply (simp add: rows)
     apply (rule 5)
    apply (rule 6)
    done
qed

section \<open>Claims about percentile targeting\<close>

text \<open>
  Claim C3. For every statistics table and every fraction \<open>q\<close> in \<open>[0, 1]\<close> the pipeline
  succeeds; its threshold is the \<open>q\<close>-quantile of the mean column by linear interpolation
  between the order statistics at \<open>floor (q * (n - 1))\<close> and the next index (not-a-number
  when the column has no number); the cohort has one row per district key, its keys are
  exactly the keys of the rows with mean at or below the threshold, and each row carries
  the minimum of the selected means of its district: a mean of a selected row of that
  district that is at or below the mean of every selected row of that district. On the
  table of one hundred districts with the means 1 to 100 the script's threshold is 10.9
  and its cohort is exactly the districts with the means 1 to 10.
\<close>

theorem low_percentile_cohort_selection:
  "(0 \<le> q \<and> q \<le> 1 \<longrightarrow>
     (\<exists>thr c. quantile (map TMIN_mean t) q = Inr thr \<and> cohort q t = Inr c \<and>
        thr = (let vs = dropna (map TMIN_mean t); s = sort vs; h = q * real (length vs - 1);
                   lo = nat \<lfloor>h\<rfloor>; hi = min (lo + 1) (length vs - 1)
               in if vs = [] then None else Some (s ! lo + (h - real lo) * (s ! hi - s ! lo))) \<and>
        distinct (map group_key c) \<and>
        group_key ` set c = group_key ` {r \<in> set t. le_nan (TMIN_mean r) thr} \<and>
        (\<forall>r\<in>set c. \<exists>m. TMIN_mean r = Some m \<and>
           (\<exists>r'\<in>set t. group_key r' = group_key r \<and> TMIN_mean r' = Some m \<and> le_nan (Some m) thr) \<and>
           (\<forall>r'\<in>set t. group_key r' = group_key r \<and> le_nan (TMIN_mean r') thr \<longrightarrow>
               le_nan (Some m) (TMIN_mean r'))))) \<and>
   global_p10 table100 = Inr (Some (109 / 10)) \<and>
   target_unique table100 = Inr (map row100 [1..<11]) \<and>
   map TMIN_mean (map row100 [1..<11]) = map (\<lambda>i. Some (real i)) [1..<11]"
  apply (intro conjI impI)
     apply (erule conjE)
     apply (erule (1) cohort_selection_general)
    apply (rule table100_threshold)
   apply (rule table100_cohort)
  apply (simp add: row100_def comp_def)
  done

text \<open>
  At nine tenths on \<open>puno_loreto\<close> the threshold is 23.5; the district of Puno has two
  selected rows, with the means -3 and 4, and its cohort row carries -3.
\<close>

theorem low_percentile_cohort_selection_witness:
  "(0::real) \<le> 9 / 10 \<and> (9 / 10 :: real) \<le> 1 \<and>
   (\<exists>thr c. quantile (map TMIN_mean puno_loreto) (9 / 10) = Inr thr \<and>
      cohort (9 / 10) puno_loreto = Inr c \<and> thr = Some (47 / 2) \<and>
      c = [mk_row ''Loreto'' ''MAYNAS'' ''IQUITOS'' 160101 (Some 20),
           mk_row ''PUNO'' ''PUNO'' ''ACORA'' 210102 (Some (-3))] \<and>
      distinct (map group_key c) \<and>
      group_key ` set c = group_key ` {r \<in> set puno_loreto. le_nan (TMIN_mean r) thr} \<and>
      (\<forall>r\<in>set c. \<exists>m. TMIN_mean r = Some m \<and>
         (\<exists>r'\<in>set puno_loreto. group_key r' = group_key r \<and> TMIN_mean r' = Some m \<and>
            le_nan (Some m) thr) \<and>
         (\<forall>r'\<in>set puno_loreto. group_key r' = group_key r \<and> le_nan (TMIN_mean r') thr \<longrightarrow>
             le_nan (Some m) (TMIN_mean r')))) \<and>
   length (filter (\<lambda>r. group_key r = group_key (mk_row ''PUNO'' ''PUNO'' ''ACORA'' 210102 None) \<and>
                       le_nan (TMIN_mean r) (Some (47 / 2))) puno_loreto) = 2"
proof -
  have h: "(0::real) \<le> 9 / 10 \<and> (9 / 10 :: real) \<le> 1" by simp
  note g = low_percentile_cohort_selection [of "9 / 10" puno_loreto, THEN conjunct1, THEN mp, OF h]
  from g obtain thr where 1: "\<exists>c. quantile (map TMIN_mean puno_loreto) (9 / 10) = Inr thr \<and>
      cohort (9 / 10) puno_loreto = Inr c \<and>
      thr = (let vs = dropna (map TMIN_mean puno_loreto); s = sort vs;
                 h = 9 / 10 * real (length vs - 1);
                 lo = nat \<lfloor>h\<rfloor>; hi = min (lo + 1) (length vs - 1)
             in if vs = [] then None else Some (s ! lo + (h - real lo) * (s ! hi - s ! lo))) \<and>
      distinct (map group_key c) \<and>
      group_key ` set c = group_key ` {r \<in> set puno_loreto. le_nan (TMIN_mean r) thr} \<and>
      (\<forall>r\<in>set c. \<exists>m. TMIN_mean r = Some m \<and>
         (\<exists>r'\<in>set puno_loreto. group_key r' = group_key r \<and> TMIN_mean r' = Some m \<and>
            le_nan (Some m) thr) \<and>
         (\<forall>r'\<in>set puno_loreto. group_key r' = group_key r \<and> le_nan (TMIN_mean r') thr \<longrightarrow>
             le_nan (Some m) (TMIN_mean r')))" ..
  then obtain c where 2: "quantile (map TMIN_mean puno_loreto) (9 / 10) = Inr thr \<and>
      cohort (9 / 10) puno_loreto = Inr c \<and>
      thr = (let vs = dropna (map TMIN_mean puno_loreto); s = sort vs;
                 h = 9 / 10 * real (length vs - 1);
                 lo = nat \<lfloor>h\<rfloor>; hi = min (lo + 1) (length vs - 1)
             in if vs = [] then None else Some (s ! lo + (h - real lo) * (s ! hi - s ! lo))) \<and>
      distinct (map group_key c) \<and>
      group_key ` set c = group_key ` {r \<in> set puno_loreto. le_nan (TMIN_mean r) thr} \<and>
      (\<forall>r\<in>set c. \<exists>m. TMIN_mean r = Some m \<and>
         (\<exists>r'\<in>set puno_loreto. group_key r' = group_key r \<and> TMIN_mean r' = Some m \<and>
            le_nan (Some m) thr) \<and>
         (\<forall>r'\<in>set puno_loreto. group_key r' = group_key r \<and> le_nan (TMIN_mean r') thr \<longrightarrow>
             le_nan (Some m) (TMIN_mean r')))" ..
  note q = 2 [THEN conjunct1]
  note co = 2 [THEN conjunct2, THEN conjunct1]
  note d = 2 [THEN conjunct2, THEN conjunct2, THEN conjunct2, THEN conjunct1]
  note k = 2 [THEN conjunct2, THEN conjunct2, THEN conjunct2, THEN conjunct2, THEN conjunct1]
  note m = 2 [THEN conjunct2, THEN conjunct2, THEN conjunct2, THEN conjunct2, THEN conjunct2]
  from q have t: "thr = Some (47 / 2)" by (simp add: puno_loreto_quantile_nine_tenths)
  from co have c: "c = [mk_row ''Loreto'' ''MAYNAS'' ''IQUITOS'' 160101 (Some 20),
           mk_row ''PUNO'' ''PUNO'' ''ACORA'' 210102 (Some (-3))]"
    by (simp add: puno_loreto_nine_tenths)
  have two: "length (filter (\<lambda>r. group_key r = group_key (mk_row ''PUNO'' ''PUNO'' ''ACORA'' 210102 None) \<and>
                       le_nan (TMIN_mean r) (Some (47 / 2))) puno_loreto) = 2"
    by (simp add: puno_loreto_def mk_row_def group_key_def ascii_def)
  show ?thesis
    apply (rule conjI, simp)
    apply (rule conjI, simp)
    apply (rule conjI)
     apply (rule exI [of _ thr], rule exI [of _ c])
     apply (rule conjI, rule q)
     apply (rule conjI, rule co)
     apply (rule conjI, rule t)
     apply (rule conjI, rule c)
     apply (rule conjI, rule d)
     apply (rule conjI, rule k)
     apply (rule m)
    apply (rule two)
    done
qed

text \<open>
  Claim C4. For fractions \<open>p1 \<le> p2\<close> in \<open>[0, 1]\<close> and a fixed table, every row of the
  cohort at \<open>p1\<close> (a district with its minimum) is a row of the cohort at \<open>p2\<close>, so
  every district of the first is a district of the second; the same holds on the table
  restricted to the Amazonian departments.
\<close>

theorem low_percentile_cohort_monotone:
  assumes "0 \<le> p1" "p1 \<le> p2" "p2 \<le> 1"
  shows "(\<exists>c1 c2. cohort p1 t = Inr c1 \<and> cohort p2 t = Inr c2 \<and> set c1 \<subseteq> set c2 \<and>
            group_key ` set c1 \<subseteq> group_key ` set c2) \<and>
         (\<exists>c1 c2. cohort p1 (t_min_stats_amazonicos U t) = Inr c1 \<and>
            cohort p2 (t_min_stats_amazonicos U t) = Inr c2 \<and> set c1 \<subseteq> set c2 \<and>
            group_key ` set c1 \<subseteq> group_key ` set c2)"
proof -
  have "\<exists>c1 c2. cohort p1 t' = Inr c1 \<and> cohort p2 t' = Inr c2 \<and> set c1 \<subseteq> set c2 \<and>
            group_key ` set c1 \<subseteq> group_key ` set c2" for t'
    using cohort_monotone_aux [OF assms, of t'] by (metis image_mono)
  then show ?thesis by blast
qed

theorem low_percentile_cohort_monotone_witness:
  "(0::real) \<le> 1 / 10 \<and> (1 / 10 :: real) \<le> 9 / 10 \<and> (9 / 10 :: real) \<le> 1 \<and>
   cohort (1 / 10) puno_loreto = Inr [mk_row ''PUNO'' ''PUNO'' ''ACORA'' 210102 (Some (-3))] \<and>
   cohort (9 / 10) puno_loreto =
     Inr [mk_row ''Loreto'' ''MAYNAS'' ''IQUITOS'' 160101 (Some 20),
          mk_row ''PUNO'' ''PUNO'' ''ACORA'' 210102 (Some (-3))] \<and>
   set [mk_row ''PUNO'' ''PUNO'' ''ACORA'' 210102 (Some (-3))]
     \<subseteq> set [mk_row ''Loreto'' ''MAYNAS'' ''IQUITOS'' 160101 (Some 20),
          mk_row ''PUNO'' ''PUNO'' ''ACORA'' 210102 (Some (-3))]"
proof -
  have h: "(0::real) \<le> 1 / 10" "(1 / 10 :: real) \<le> 9 / 10" "(9 / 10 :: real) \<le> 1" by simp_all
  from low_percentile_cohort_monotone [OF h, of puno_loreto ucd_fragment]
  obtain c1 c2 where "cohort (1 / 10) puno_loreto = Inr c1" "cohort (9 / 10) puno_loreto = Inr c2"
    "set c1 \<subseteq> set c2" by blast
  then show ?thesis using h by (simp add: puno_loreto_tenth puno_loreto_nine_tenths)
qed

text \<open>
  Claim C10. When at least one row has a mean that is a number, then for every fraction
  in \<open>[0, 1]\<close> the threshold is a number not below the smallest mean, the cohort is not
  empty, and it contains the district of every row that attains the smallest mean.
\<close>

theorem low_percentile_cohort_nonempty:
  assumes "\<exists>r\<in>set t. TMIN_mean r \<noteq> None" "0 \<le> p" "p \<le> 1"
  shows "\<exists>thr c. quantile (map TMIN_mean t) p = Inr (Some thr) \<and> cohort p t = Inr c \<and> c \<noteq> [] \<and>
           Min (set (dropna (map TMIN_mean t))) \<le> thr \<and>
           (\<forall>r\<in>set t. TMIN_mean r = Some (Min (set (dropna (map TMIN_mean t)))) \<longrightarrow>
              group_key r \<in> group_key ` set c)"
proof -
  let ?vs = "dropna (map TMIN_mean t)"
  let ?thr = "linear_quantile ?vs p"
  let ?sel = "filter (\<lambda>r. le_nan (TMIN_mean r) (Some ?thr)) t"
  have ne: "?vs \<noteq> []" using assms(1) by (auto simp: dropna_empty_iff)
  have q: "quantile (map TMIN_mean t) p = Inr (Some ?thr)"
    using ne assms(2,3) by (simp add: quantile_ok)
  have c: "cohort p t = Inr (groupby_min ?sel)"
    using ne assms(2,3) by (simp add: cohort_ok)
  have le: "Min (set ?vs) \<le> ?thr"
    using ne assms(2,3) by (rule linear_quantile_ge_Min)
  have key: "group_key r \<in> group_key ` set (groupby_min ?sel)"
    if "r \<in> set t" "TMIN_mean r = Some (Min (set ?vs))" for r
  proof -
    have "r \<in> set ?sel" using that le by simp
    then show ?thesis unfolding groupby_min_key_set by (rule imageI)
  qed
  have "Min (set ?vs) \<in> set ?vs" using ne by (intro Min_in) simp_all
  then obtain r where r: "r \<in> set t" "TMIN_mean r = Some (Min (set ?vs))"
    unfolding set_dropna_map by blast
  from key [OF r] have "groupby_min ?sel \<noteq> []" by auto
  with q c le key show ?thesis by blast
qed

theorem low_percentile_cohort_nonempty_witness:
  "(\<exists>r\<in>set puno_loreto. TMIN_mean r \<noteq> None) \<and> (0::real) \<le> 1 / 10 \<and> (1 / 10 :: real) \<le> 1 \<and>
   quantile (map TMIN_mean puno_loreto) (1 / 10) = Inr (Some (- 9 / 10)) \<and>
   Min (set (dropna (map TMIN_mean puno_loreto))) = - 3 \<and>
   (\<exists>c. cohort (1 / 10) puno_loreto = Inr c \<and> c \<noteq> [])"
proof -
  have h: "\<exists>r\<in>set puno_loreto. TMIN_mean r \<noteq> None"
    by (simp add: puno_loreto_def mk_row_def)
  have p: "(0::real) \<le> 1 / 10" "(1 / 10 :: real) \<le> 1" by simp_all
  have q: "quantile (map TMIN_mean puno_loreto) (1 / 10) = Inr (Some (- 9 / 10))"
    by (simp add: quantile_def puno_loreto_def mk_row_def dropna_def linear_quantile_def lerp_at_def)
  have m: "Min (set (dropna (map TMIN_mean puno_loreto))) = - 3"
    by (simp add: puno_loreto_def mk_row_def dropna_def)
  from low_percentile_cohort_nonempty [OF h p]
  have "\<exists>c. cohort (1 / 10) puno_loreto = Inr c \<and> c \<noteq> []" by blast
  with h p q m show ?thesis by blast
qed

text \<open>
  Claim C6 as stated (an empty scope fails with \<open>EmptyScopeError\<close>) does not hold: no
  such exception exists in the script. On a table without Amazonian rows the quantile
  of the empty column is not-a-number, no row compares at or below it, and the cohort is
  the empty table.
\<close>

theorem amazon_cohort_empty_scope:
  "t_min_stats_amazonicos ucd_fragment puno_only = [] \<and>
   global_p10_amazonicos ucd_fragment puno_only = Inr None \<and>
   target_unique_amazonicos ucd_fragment puno_only = Inr []"
  by (simp add: target_unique_amazonicos_def global_p10_amazonicos_def t_min_stats_amazonicos_def
      amazon_depts_def puno_only_def mk_row_def str_upper_def ucd_fragment_def ascii_def
      cohort_def quantile_def dropna_def)

text \<open>
  Claim C6, amended. The Amazonian cohort never fails: it is always a table, every row of
  it has a department whose upper-case form is one of the three Amazonian names, and when
  no row of the table matches the scope the threshold is not-a-number and the cohort is
  empty. The script fixes the fraction at one tenth; the pipeline run with a fraction
  outside \<open>[0, 1]\<close> fails with the \<open>ValueError\<close> of \<open>quantile\<close>.
\<close>

theorem amazon_cohort_scoped:
  "(\<exists>c. target_unique_amazonicos U t = Inr c \<and>
        (\<forall>r\<in>set c. str_upper U (DEPARTAMEN r) \<in> set amazon_depts) \<and>
        (t_min_stats_amazonicos U t = [] \<longrightarrow> global_p10_amazonicos U t = Inr None \<and> c = [])) \<and>
   (q < 0 \<or> 1 < q \<longrightarrow> cohort q t = Inl ValueError)"
proof -
  let ?s = "t_min_stats_amazonicos U t"
  define thr where "thr = (if dropna (map TMIN_mean ?s) = [] then None
       else Some (linear_quantile (dropna (map TMIN_mean ?s)) (1 / 10)))"
  let ?sel = "filter (\<lambda>r. le_nan (TMIN_mean r) thr) ?s"
  have c: "target_unique_amazonicos U t = Inr (groupby_min ?sel)"
    by (simp add: target_unique_amazonicos_def cohort_ok thr_def)
  have d: "str_upper U (DEPARTAMEN r) \<in> set amazon_depts" if r: "r \<in> set (groupby_min ?sel)" for r
  proof -
    from r have "group_key r \<in> group_key ` set (groupby_min ?sel)" by (rule imageI)
    then have "group_key r \<in> group_key ` set ?sel" by (simp only: groupby_min_key_set)
    then obtain r0 where r0: "r0 \<in> set ?s" "group_key r = group_key r0" by auto
    then have "DEPARTAMEN r = DEPARTAMEN r0" by (simp add: DEPARTAMEN_group_key)
    then show ?thesis using r0(1) by (simp add: t_min_stats_amazonicos_def)
  qed
  have e: "global_p10_amazonicos U t = Inr None \<and> groupby_min ?sel = []" if "?s = []"
    using that by (simp add: global_p10_amazonicos_def quantile_def dropna_def)
  have v: "cohort q t = Inl ValueError" if "q < 0 \<or> 1 < q"
    using that by (auto simp: cohort_def quantile_def)
  show ?thesis
    apply (intro conjI impI exI [of _ "groupby_min ?sel"] ballI)
       apply (rule c)
      apply (erule d)
      apply (erule e [THEN conjunct1])
     apply (erule e [THEN conjunct2])
    apply (erule v)
    done
qed

theorem amazon_cohort_scoped_witness:
  "target_unique_amazonicos ucd_fragment puno_loreto =
     Inr [mk_row ''Loreto'' ''MAYNAS'' ''IQUITOS'' 160101 (Some 20)] \<and>
   str_upper ucd_fragment (DEPARTAMEN (mk_row ''Loreto'' ''MAYNAS'' ''IQUITOS'' 160101 (Some 20)))
     = ascii ''LORETO'' \<and>
   ascii ''LORETO'' \<in> set amazon_depts \<and>
   t_min_stats_amazonicos ucd_fragment puno_only = [] \<and>
   target_unique_amazonicos ucd_fragment puno_only = Inr [] \<and>
   ((2::real) < 0 \<or> (1::real) < 2) \<and> cohort 2 puno_loreto = Inl ValueError"
proof -
  have u: "str_upper ucd_fragment (DEPARTAMEN (mk_row ''Loreto'' ''MAYNAS'' ''IQUITOS'' 160101 (Some 20)))
     = ascii ''LORETO''"
    by (simp add: mk_row_def str_upper_def ucd_fragment_def ascii_def)
  have s: "t_min_stats_amazonicos ucd_fragment puno_only = []"
    by (simp add: t_min_stats_amazonicos_def amazon_depts_def puno_only_def mk_row_def
        str_upper_def ucd_fragment_def ascii_def)
  from amazon_cohort_scoped [of ucd_fragment puno_loreto 2]
  have a: "\<forall>r\<in>set [mk_row ''Loreto'' ''MAYNAS'' ''IQUITOS'' 160101 (Some 20)].
      str_upper ucd_fragment (DEPARTAMEN r) \<in> set amazon_depts"
    and v: "cohort 2 puno_loreto = Inl ValueError"
    by (simp_all add: amazon_cohort_eval)
  from amazon_cohort_scoped [of ucd_fragment puno_only 2] s
  have e: "target_unique_amazonicos ucd_fragment puno_only = Inr []" by auto
  from a u have "ascii ''LORETO'' \<in> set amazon_depts" by simp
  with u s e v show ?thesis by (simp add: amazon_cohort_eval)
qed

text \<open>
  Claim C9 says that the departments shown with the Amazonian cohort are the departments
  of that cohort. On \<open>puno_loreto\<close> the departments of the Amazonian cohort are
  \<open>Loreto\<close> alone, and the table the script shows holds \<open>PUNO\<close>, the department of the
  cohort over the whole table.
\<close>

theorem amazon_departments_shown:
  "departamentos_amaz ucd_fragment puno_loreto = Inr [ascii ''Loreto''] \<and>
   departamentos_amazonicos_df ucd_fragment puno_loreto = Inr [ascii ''PUNO'']"
  by (simp add: departamentos_amaz_def departamentos_amazonicos_df_def departamentos_def
      target_unique_def amazon_cohort_eval puno_loreto_tenth unique_def mk_row_def)

end
